theory Spec2Isabelle
  imports Complex_Main "HOL-Library.Word"
begin

section \<open>JavaScript values\<close>

text \<open>
  A JavaScript string is a sequence of UTF-16 code units; \<open>length\<close>, \<open>slice\<close>, \<open>trim\<close> and
  the regular expressions of \<open>geminiService.ts\<close> all work on code units. String literals of
  the source are ASCII and are written \<open>js ''...''\<close>.
\<close>

type_synonym jsstring = "16 word list"

definition js :: "string \<Rightarrow> jsstring" where
  "js s = map of_char s"

text \<open>
  A number that \<open>JSON.parse\<close> returns is an IEEE double that is not NaN: a finite double
  (a rational; \<open>-0\<close> and \<open>0\<close> compare equal) or an infinity (from a literal such as
  \<open>1e999\<close>). The functions below only compare numbers.
\<close>

datatype jsnumber = Finite rat | PosInfinity | NegInfinity

fun num_less :: "jsnumber \<Rightarrow> jsnumber \<Rightarrow> bool" where
  "num_less (Finite a) (Finite b) = (a < b)"
| "num_less (Finite a) PosInfinity = True"
| "num_less (Finite a) NegInfinity = False"
| "num_less PosInfinity b = False"
| "num_less NegInfinity b = (b \<noteq> NegInfinity)"

text \<open>
  The value \<open>JSON.parse\<close> returns. An object is the table of its own properties; a property
  read takes the first binding of the key.
\<close>

datatype json =
    JNull
  | JBool bool
  | JNum jsnumber
  | JStr jsstring
  | JArr "json list"
  | JObj "(jsstring \<times> json) list"

text \<open>The result of a property read: \<open>None\<close> is \<open>undefined\<close>.\<close>

type_synonym jsvalue = "json option"

text \<open>
  \<open>x.k\<close> for the property names this file reads; none of them is \<open>length\<close>, an index or a
  member inherited from a prototype, so the read is \<open>undefined\<close> on an array, a string, a
  number and a boolean. Reading a property of \<open>null\<close> throws: every call below is either
  behind a guard that excludes \<open>null\<close> or handles \<open>null\<close> before it reads.
\<close>

fun getProp :: "json \<Rightarrow> jsstring \<Rightarrow> jsvalue" where
  "getProp (JObj kvs) k = map_of kvs k"
| "getProp _ k = None"

fun truthy :: "jsvalue \<Rightarrow> bool" where
  "truthy None = False"
| "truthy (Some JNull) = False"
| "truthy (Some (JBool b)) = b"
| "truthy (Some (JNum n)) = (n \<noteq> Finite 0)"
| "truthy (Some (JStr s)) = (s \<noteq> [])"
| "truthy (Some (JArr xs)) = True"
| "truthy (Some (JObj kvs)) = True"

fun typeof :: "jsvalue \<Rightarrow> string" where
  "typeof None = ''undefined''"
| "typeof (Some JNull) = ''object''"
| "typeof (Some (JBool b)) = ''boolean''"
| "typeof (Some (JNum n)) = ''number''"
| "typeof (Some (JStr s)) = ''string''"
| "typeof (Some (JArr xs)) = ''object''"
| "typeof (Some (JObj kvs)) = ''object''"

fun isArray :: "jsvalue \<Rightarrow> bool" where
  "isArray (Some (JArr xs)) = True"
| "isArray _ = False"

text \<open>\<open>v < c\<close> and \<open>v > c\<close> for a value whose \<open>typeof\<close> is \<open>number\<close>, as where the source compares.\<close>

fun js_lt :: "jsvalue \<Rightarrow> jsnumber \<Rightarrow> bool" where
  "js_lt (Some (JNum n)) c = num_less n c"
| "js_lt _ c = False"

fun js_gt :: "jsvalue \<Rightarrow> jsnumber \<Rightarrow> bool" where
  "js_gt (Some (JNum n)) c = num_less c n"
| "js_gt _ c = False"

text \<open>\<open>xs.includes(v)\<close> for an array of string literals.\<close>

fun arrayIncludes :: "jsstring list \<Rightarrow> jsvalue \<Rightarrow> bool" where
  "arrayIncludes xs (Some (JStr s)) = (s \<in> set xs)"
| "arrayIncludes xs _ = False"

subsection \<open>String operations\<close>

text \<open>
  The code units that \<open>String.prototype.trim\<close> removes and that \<open>\s\<close> matches: ECMAScript's
  WhiteSpace and LineTerminator (the same set for both).
\<close>

definition isWhiteSpace :: "16 word \<Rightarrow> bool" where
  "isWhiteSpace c \<longleftrightarrow>
     c \<in> {0x0009, 0x000A, 0x000B, 0x000C, 0x000D, 0x0020, 0x00A0, 0x1680,
          0x2000, 0x2001, 0x2002, 0x2003, 0x2004, 0x2005, 0x2006, 0x2007, 0x2008, 0x2009,
          0x200A, 0x2028, 0x2029, 0x202F, 0x205F, 0x3000, 0xFEFF}"

definition trimStart :: "jsstring \<Rightarrow> jsstring" where
  "trimStart s = dropWhile isWhiteSpace s"

definition trimEnd :: "jsstring \<Rightarrow> jsstring" where
  "trimEnd s = rev (dropWhile isWhiteSpace (rev s))"

definition trim :: "jsstring \<Rightarrow> jsstring" where
  "trim s = trimEnd (trimStart s)"

definition startsWith :: "jsstring \<Rightarrow> jsstring \<Rightarrow> bool" where
  "startsWith s p \<longleftrightarrow> take (length p) s = p"

definition endsWith :: "jsstring \<Rightarrow> jsstring \<Rightarrow> bool" where
  "endsWith s p \<longleftrightarrow> length p \<le> length s \<and> drop (length s - length p) s = p"

text \<open>
  \<open>s.replace(/^M\s*/, '')\<close> for a literal \<open>M\<close>: when \<open>s\<close> starts with \<open>M\<close>, the match is \<open>M\<close>
  and the whole run of white space after it; otherwise there is no match and \<open>s\<close> is
  unchanged.
\<close>

definition replaceLeading :: "jsstring \<Rightarrow> jsstring \<Rightarrow> jsstring" where
  "replaceLeading m s =
     (if startsWith s m then dropWhile isWhiteSpace (drop (length m) s) else s)"

text \<open>
  \<open>s.replace(/\s*```$/, '')\<close>: without the \<open>m\<close> flag \<open>$\<close> is the end of the input, so there
  is a match only when \<open>s\<close> ends with three backticks, and the leftmost match starts at
  the beginning of the run of white space before them.
\<close>

definition replaceTrailingFence :: "jsstring \<Rightarrow> jsstring" where
  "replaceTrailingFence s =
     (if endsWith s (js ''```'') then trimEnd (take (length s - 3) s) else s)"

text \<open>Decimal digits of an array index, as in the template literal \<open>`gemini-${index}`\<close>.\<close>

fun decimal :: "nat \<Rightarrow> jsstring" where
  "decimal n =
     (if n < 10 then [of_nat (48 + n)] else decimal (n div 10) @ [of_nat (48 + n mod 10)])"

declare decimal.simps [simp del]

section \<open>The data model of an analysis\<close>

text \<open>
  \<open>KeyDetail\<close>, \<open>ClausePattern\<close>, \<open>FlaggedClause\<close> and \<open>AnalysisResult\<close> as
  \<open>parseGeminiResponse\<close> builds them. The response is untyped at run time, so a field that
  is copied from it holds whatever value the response had there.
\<close>

record KeyDetail =
  label :: jsstring
  value_kd :: jsvalue
  category :: jsstring

record ClausePattern =
  id_cp :: jsstring
  category_cp :: jsvalue
  name_cp :: jsvalue
  description :: jsvalue
  keywords_cp :: "jsstring list"
  isMalicious :: jsvalue
  severity :: jsvalue
  legalReference :: jsvalue
  explanation :: jsvalue

record FlaggedClause =
  clause :: ClausePattern
  matchedText :: jsvalue
  position :: nat
  aiInsight :: jsvalue

record AnalysisResult =
  summary :: jsvalue
  keyDetails :: "KeyDetail list"
  flaggedClauses :: "FlaggedClause list"
  overallRiskScore :: jsvalue
  recommendations :: jsvalue
  analysisMethod :: jsstring
  confidence :: int

text \<open>
  What a function of the file can throw: a \<open>GeminiError\<close> (message, code), another
  \<open>Error\<close> object (its message), or a value that is not an \<open>Error\<close>.
\<close>

datatype thrown =
    GeminiError (message: jsstring) (code: jsstring)
  | JsError jsstring
  | NonError

text \<open>
  The JavaScript engine, as far as \<open>parseGeminiResponse\<close> depends on it: \<open>JSON.parse\<close>
  (\<open>None\<close> when it throws) and the message of the \<open>TypeError\<close> that a property read of
  \<open>null\<close> raises.
\<close>

record jsengine =
  JSON_parse :: "jsstring \<Rightarrow> json option"
  nullReadMessage :: jsstring

section \<open>\<open>src/lib/geminiService.ts\<close>\<close>

subsection \<open>\<open>validateAnalysisResult\<close>\<close>

definition validRiskLevels :: "jsstring list" where
  "validRiskLevels = [js ''low'', js ''moderate'', js ''high'', js ''critical'']"

definition validateAnalysisResult :: "json \<Rightarrow> bool" where
  "validateAnalysisResult data =
     (if \<not> truthy (Some data) \<or> typeof (Some data) \<noteq> ''object'' then False
      else if \<not> truthy (getProp data (js ''keyDetails''))
              \<or> typeof (getProp data (js ''keyDetails'')) \<noteq> ''object'' then False
      else if \<not> isArray (getProp data (js ''flaggedClauses'')) then False
      else if typeof (getProp data (js ''overallRiskScore'')) \<noteq> ''number'' then False
      else if \<not> truthy (getProp data (js ''riskLevel''))
              \<or> typeof (getProp data (js ''riskLevel'')) \<noteq> ''string'' then False
      else if \<not> truthy (getProp data (js ''summary''))
              \<or> typeof (getProp data (js ''summary'')) \<noteq> ''string'' then False
      else if \<not> isArray (getProp data (js ''recommendations'')) then False
      else if js_lt (getProp data (js ''overallRiskScore'')) (Finite 0)
              \<or> js_gt (getProp data (js ''overallRiskScore'')) (Finite 100) then False
      else if \<not> arrayIncludes validRiskLevels (getProp data (js ''riskLevel'')) then False
      else True)"

subsection \<open>\<open>parseGeminiResponse\<close>\<close>

text \<open>Lines 221 to 226: the response trimmed, and one code fence removed.\<close>

definition cleanedResponse :: "jsstring \<Rightarrow> jsstring" where
  "cleanedResponse response =
     (let cleaned = trim response in
      if startsWith cleaned (js ''```json'')
      then replaceTrailingFence (replaceLeading (js ''```json'') cleaned)
      else if startsWith cleaned (js ''```'')
      then replaceTrailingFence (replaceLeading (js ''```'') cleaned)
      else cleaned)"

text \<open>
  Lines 244 to 267: one \<open>if (detailsMap.f) keyDetails.push({label, value: detailsMap.f,
  category})\<close>. \<open>detailsMap\<close> is \<open>data.keyDetails\<close>, which the validator has found truthy.
\<close>

fun member :: "jsvalue \<Rightarrow> jsstring \<Rightarrow> jsvalue" where
  "member (Some j) k = getProp j k"
| "member None k = None"

definition pushDetail :: "jsvalue \<Rightarrow> jsstring \<Rightarrow> jsstring \<Rightarrow> jsstring \<Rightarrow> KeyDetail list" where
  "pushDetail detailsMap f l c =
     (if truthy (member detailsMap f)
      then [\<lparr>label = l, value_kd = member detailsMap f, category = c\<rparr>] else [])"

definition convertKeyDetails :: "jsvalue \<Rightarrow> KeyDetail list" where
  "convertKeyDetails detailsMap =
     pushDetail detailsMap (js ''propertyAddress'') (js ''Property Address'') (js ''other'')
   @ pushDetail detailsMap (js ''landlordName'') (js ''Landlord Name'') (js ''other'')
   @ pushDetail detailsMap (js ''monthlyRent'') (js ''Monthly Rent'') (js ''rent'')
   @ pushDetail detailsMap (js ''securityDeposit'') (js ''Security Deposit'')
       (js ''security_deposit'')
   @ pushDetail detailsMap (js ''petDeposit'') (js ''Pet Deposit'') (js ''security_deposit'')
   @ pushDetail detailsMap (js ''leaseStartDate'') (js ''Lease Start Date'') (js ''termination'')
   @ pushDetail detailsMap (js ''leaseEndDate'') (js ''Lease End Date'') (js ''termination'')
   @ pushDetail detailsMap (js ''noticePeriod'') (js ''Notice Period'') (js ''termination'')"

text \<open>Lines 270 to 289: the callback of \<open>data.flaggedClauses.map\<close>, for a clause that is not \<open>null\<close>.\<close>

definition convertClause :: "nat \<Rightarrow> json \<Rightarrow> FlaggedClause" where
  "convertClause index c =
     \<lparr>clause =
        \<lparr>id_cp = js ''gemini-'' @ decimal index,
         category_cp = getProp c (js ''category''),
         name_cp = getProp c (js ''violation''),
         description = getProp c (js ''explanation''),
         keywords_cp = [],
         isMalicious = getProp c (js ''isMalicious''),
         severity = getProp c (js ''severity''),
         legalReference = getProp c (js ''legalReference''),
         explanation = getProp c (js ''explanation'')\<rparr>,
      matchedText = getProp c (js ''clauseText''),
      position = 0,
      aiInsight = getProp c (js ''recommendation'')\<rparr>"

text \<open>
  \<open>map\<close> calls the callback on the elements from left to right with their indices; on a
  \<open>null\<close> element the first read, \<open>clause.category\<close>, throws a \<open>TypeError\<close>, which ends the map.
\<close>

fun convertClauses :: "jsstring \<Rightarrow> nat \<Rightarrow> json list \<Rightarrow> thrown + FlaggedClause list" where
  "convertClauses m index [] = Inr []"
| "convertClauses m index (c # cs) =
     (if c = JNull then Inl (JsError m)
      else (case convertClauses m (Suc index) cs of
              Inl e \<Rightarrow> Inl e
            | Inr fs \<Rightarrow> Inr (convertClause index c # fs)))"

text \<open>The elements of a value that the validator has found to be an array.\<close>

fun elements :: "jsvalue \<Rightarrow> json list" where
  "elements (Some (JArr xs)) = xs"
| "elements _ = []"

definition parseGeminiResponse :: "jsengine \<Rightarrow> jsstring \<Rightarrow> thrown + AnalysisResult" where
  "parseGeminiResponse E response =
     (case JSON_parse E (cleanedResponse response) of
        None \<Rightarrow> Inl (GeminiError (js ''Failed to parse Gemini response as JSON'') (js ''PARSE_ERROR''))
      | Some data \<Rightarrow>
          if \<not> validateAnalysisResult data
          then Inl (GeminiError (js ''Invalid response structure from Gemini'')
                      (js ''VALIDATION_ERROR''))
          else
            (let kds = convertKeyDetails (getProp data (js ''keyDetails'')) in
             case convertClauses (nullReadMessage E) 0
                    (elements (getProp data (js ''flaggedClauses''))) of
               Inl e \<Rightarrow> Inl e
             | Inr fcs \<Rightarrow>
                 Inr \<lparr>summary = getProp data (js ''summary''),
                      keyDetails = kds,
                      flaggedClauses = fcs,
                      overallRiskScore = getProp data (js ''overallRiskScore''),
                      recommendations = getProp data (js ''recommendations''),
                      analysisMethod = js ''gemini'',
                      confidence = 95\<rparr>))"

subsection \<open>\<open>buildAnalysisPrompt\<close>\<close>

text \<open>
  The template literals of the source, line by line; \<open>joinLines\<close> puts the line feeds
  back between the lines.
\<close>

fun joinLines :: "string list \<Rightarrow> string" where
  "joinLines [] = []"
| "joinLines [l] = l"
| "joinLines (l # ls) = l @ CHR 0x0A # joinLines ls"

definition BC_RTA_KNOWLEDGE_lines :: "string list" where
  \<open>BC_RTA_KNOWLEDGE_lines =
    ['''',
     ''BC RESIDENTIAL TENANCY ACT KEY REGULATIONS:'',
     '''',
     ''SECURITY DEPOSITS (Section 19):'',
     ''- Maximum: 0.5 months rent (half month's rent) - THIS IS LEGAL AND COMPLIANT'',
     ''- ONLY flag as excessive if deposit is MORE THAN 0.5 months rent'',
     ''- Examples:'',
     ''  * $2,000 rent with $1,000 deposit = COMPLIANT (exactly 0.5)'',
     ''  * $2,000 rent with $1,500 deposit = VIOLATION (0.75 months)'',
     ''  * $2,100 rent with $1,050 deposit = COMPLIANT (exactly 0.5)'',
     ''- Must be refundable'',
     ''- Requires move-in and move-out condition inspection reports'',
     ''- Cannot be labeled as "non-refundable"'',
     '''',
     ''PET DEPOSITS (Section 19):'',
     ''- Maximum: 0.5 months rent (separate from security deposit) - THIS IS LEGAL'',
     ''- ONLY flag as excessive if pet deposit is MORE THAN 0.5 months rent'',
     ''- Must be refundable'',
     ''- Only allowed if pets are permitted'',
     '''',
     ''RENT INCREASES (Section 42-43):'',
     ''- Frequency: Once per 12 months maximum'',
     ''- Notice: 3 months written notice required'',
     ''- Amount: Limited to government-set percentage (typically 2-3% annually)'',
     ''- Cannot be retroactive'',
     ''- Requires proper RTB form'',
     '''',
     ''TERMINATION & EVICTION (Section 45-55):'',
     ''- Landlord must follow proper legal process'',
     ''- Cannot evict without proper notice and reason'',
     ''- Tenant entitled to dispute resolution'',
     ''- Immediate eviction clauses are illegal'',
     ''- Fixed-term vacate clauses generally unenforceable (since 2017)'',
     '''',
     ''NOTICE PERIODS (Section 45):'',
     ''- Month-to-month: 1 month notice from tenant'',
     ''- Landlord ending tenancy: 2-4 months depending on reason'',
     ''- Tenants cannot waive notice rights'',
     '''',
     ''MAINTENANCE & REPAIRS (Section 32):'',
     ''- Landlord responsible for maintaining rental unit'',
     ''- Landlord must keep unit in reasonable condition'',
     ''- Major repairs are landlord's responsibility'',
     ''- Tenant cannot be forced to pay for structural repairs'',
     '''',
     ''PRIVACY & ENTRY (Section 29):'',
     ''- Landlord must give 24 hours written notice before entry'',
     ''- Entry only allowed 8am-9pm unless emergency'',
     ''- Must specify reason for entry'',
     ''- Unlimited access clauses are illegal'',
     '''',
     ''TENANT RIGHTS (Section 5):'',
     ''- Rights under RTA cannot be waived'',
     ''- Any clause attempting to waive RTA rights is void'',
     ''- Tenants have right to quiet enjoyment'',
     ''- Reasonable guest policies only'',
     '''',
     ''POST-DATED CHEQUES (Section 22):'',
     ''- Landlords cannot require post-dated cheques'',
     ''- Cannot require automatic payment authorization'',
     ''- Tenant chooses payment method'',
     '''',
     ''UTILITIES:'',
     ''- Must be clearly specified who pays what'',
     ''- Cannot change utility responsibility without agreement'',
     ''- Landlord cannot charge more than actual cost'',
     '''',
     ''SUBLETTING (Section 34):'',
     ''- Landlord cannot unreasonably refuse subletting'',
     ''- Important for students during summer breaks'',
     ''- Tenant must get landlord approval'',
     '''']\<close>

definition BC_RTA_KNOWLEDGE :: jsstring where
  "BC_RTA_KNOWLEDGE = js (joinLines BC_RTA_KNOWLEDGE_lines)"

text \<open>The prompt before \<open>${BC_RTA_KNOWLEDGE}\<close>, between it and the contract text, and after the text.\<close>

definition promptIntro :: "string list" where
  \<open>promptIntro =
    [''You are an expert legal analyst specializing in BC (British Columbia) Residential Tenancy Act compliance. Your task is to analyze rental contracts and identify problematic clauses that violate BC tenancy laws.'',
     '''',
     '''']\<close>

definition promptTask :: "string list" where
  \<open>promptTask =
    ['''',
     '''',
     ''TASK:'',
     ''Analyze the following rental contract and provide a comprehensive assessment. Extract key details, identify problematic clauses, and calculate an overall risk score.'',
     '''',
     ''IMPORTANT INSTRUCTIONS:'',
     ''1. Be thorough but concise in your analysis'',
     ''2. ONLY flag clauses that VIOLATE BC law - do NOT flag compliant clauses'',
     ''3. Security deposits at exactly 0.5 months rent are LEGAL and should NOT be flagged'',
     ''4. Pet deposits at exactly 0.5 months rent are LEGAL and should NOT be flagged'',
     ''5. Only flag deposits if they EXCEED 0.5 months rent (e.g., 0.75 months, 1 month, etc.)'',
     ''6. Provide specific legal references from BC RTA'',
     ''7. Calculate risk score based on severity: High=30 points, Medium=15 points, Low=5 points (max 100)'',
     ''8. Provide actionable recommendations for the tenant'',
     ''9. Extract exact text snippets for flagged clauses (keep under 200 characters)'',
     ''10. If a contract is compliant, the flaggedClauses array should be EMPTY or contain only informational items'',
     '''',
     ''OUTPUT FORMAT:'',
     ''Respond ONLY with valid JSON matching this exact structure (no markdown, no code blocks, just raw JSON):'',
     '''',
     ''{'',
     ''  "keyDetails": {'',
     ''    "monthlyRent": "extracted value or null",'',
     ''    "securityDeposit": "extracted value or null",'',
     ''    "petDeposit": "extracted value or null",'',
     ''    "leaseStartDate": "extracted value or null",'',
     ''    "leaseEndDate": "extracted value or null",'',
     ''    "propertyAddress": "extracted value or null",'',
     ''    "landlordName": "extracted value or null",'',
     ''    "tenantName": "extracted value or null",'',
     ''    "noticePeriod": "extracted value or null"'',
     ''  },'',
     ''  "flaggedClauses": ['',
     ''    {'',
     ''      "clauseText": "exact text from contract (max 200 chars)",'',
     ''      "category": "security_deposit|rent|termination|maintenance|privacy|pets|subletting|utilities|other",'',
     ''      "severity": "low|medium|high",'',
     ''      "isMalicious": true or false,'',
     ''      "violation": "brief description of what law is violated",'',
     ''      "legalReference": "BC RTA Section X",'',
     ''      "explanation": "why this is concerning for the tenant",'',
     ''      "recommendation": "what the tenant should do about this"'',
     ''    }'',
     ''  ],'',
     ''  "overallRiskScore": 0-100,'',
     ''  "riskLevel": "low|moderate|high|critical",'',
     ''  "summary": "2-3 sentence overview of the contract",'',
     ''  "recommendations": ["recommendation 1", "recommendation 2", "..."]'',
     ''}'',
     '''',
     ''RISK LEVEL GUIDELINES:'',
     ''- low: 0 score, no violations found'',
     ''- moderate: 1-29 score, minor concerns'',
     ''- high: 30-59 score, significant violations'',
     ''- critical: 60+ score, serious illegal clauses'',
     '''',
     ''CONTRACT TEXT TO ANALYZE:'',
     '''']\<close>

definition promptClosing :: "string list" where
  \<open>promptClosing =
    ['''',
     '''',
     ''Remember: Respond with ONLY the JSON object, no additional text or formatting.'']\<close>

definition buildAnalysisPrompt :: "jsstring \<Rightarrow> jsstring" where
  "buildAnalysisPrompt contractText =
     js (joinLines promptIntro) @ BC_RTA_KNOWLEDGE @ js (joinLines promptTask)
     @ take 50000 contractText @ js (joinLines promptClosing)"

subsection \<open>\<open>analyzeContractWithGemini\<close>\<close>

text \<open>
  The outside world of one analysis. \<open>model.generateContent(prompt)\<close> followed by
  \<open>result.response.text()\<close> either throws (\<open>Fails (Some m)\<close>: an \<open>Error\<close> with message \<open>m\<close>;
  \<open>Fails None\<close>: a value that is not an \<open>Error\<close>) or yields the text of the response. The
  SDK cannot throw a \<open>GeminiError\<close>: the class belongs to this file. A transport is given
  the prompt and the number of the attempt. The model covers calls that settle.
\<close>

datatype outcome = Fails "jsstring option" | Text jsstring

type_synonym transport = "jsstring \<Rightarrow> nat \<Rightarrow> outcome"

text \<open>What an analysis does that can be observed from outside, in order.\<close>

datatype event =
    GenerateContent jsstring
  | ConsoleWarn jsstring jsstring
  | Sleep nat

text \<open>The body of the \<open>try\<close> block (lines 339 to 348) on the outcome of the call.\<close>

definition tryAttempt :: "jsengine \<Rightarrow> outcome \<Rightarrow> thrown + AnalysisResult" where
  "tryAttempt E oc =
     (case oc of
        Fails None \<Rightarrow> Inl NonError
      | Fails (Some m) \<Rightarrow> Inl (JsError m)
      | Text t \<Rightarrow>
          if t = [] then Inl (GeminiError (js ''Empty response from Gemini'') (js ''EMPTY_RESPONSE''))
          else parseGeminiResponse E t)"

fun isGeminiError :: "thrown \<Rightarrow> bool" where
  "isGeminiError (GeminiError m c) = True"
| "isGeminiError _ = False"

text \<open>\<open>error.message\<close> of a thrown \<open>Error\<close>; \<open>GeminiError\<close> extends \<open>Error\<close>.\<close>

fun errorMessage :: "thrown \<Rightarrow> jsstring option" where
  "errorMessage (GeminiError m c) = Some m"
| "errorMessage (JsError m) = Some m"
| "errorMessage NonError = None"

text \<open>
  The \<open>for\<close> loop of lines 337 to 371 and the \<open>throw\<close> after it, from the attempt
  \<open>attempt\<close> on, with the events so far. \<open>sleep(Math.pow(2, attempt) * 1000)\<close> is the
  event \<open>Sleep\<close> with its milliseconds.
\<close>

function retryLoop ::
  "jsengine \<Rightarrow> transport \<Rightarrow> jsstring \<Rightarrow> int \<Rightarrow> nat \<Rightarrow> event list
     \<Rightarrow> event list \<times> (thrown + AnalysisResult)" where
  "retryLoop E T prompt maxRetries attempt evs =
     (if int attempt < maxRetries then
        (case tryAttempt E (T prompt attempt) of
           Inr r \<Rightarrow> (evs @ [GenerateContent prompt], Inr r)
         | Inl error \<Rightarrow>
             if isGeminiError error \<and> \<not> (int attempt = maxRetries - 1) then
               retryLoop E T prompt maxRetries (Suc attempt)
                 (evs @ [GenerateContent prompt,
                         ConsoleWarn (js ''Gemini attempt '' @ decimal (attempt + 1) @ js '' failed:'')
                           (message error),
                         Sleep (2 ^ attempt * 1000)])
             else if isGeminiError error then (evs @ [GenerateContent prompt], Inl error)
             else
               (evs @ [GenerateContent prompt],
                Inl (GeminiError
                       (case errorMessage error of
                          Some m \<Rightarrow> m
                        | None \<Rightarrow> js ''Unknown error during Gemini analysis'')
                       (js ''UNKNOWN_ERROR''))))
      else (evs, Inl (GeminiError (js ''Max retries exceeded'') (js ''MAX_RETRIES''))))"
  by pat_completeness auto
termination
  by (relation "measure (\<lambda>(E, T, prompt, maxRetries, attempt, evs). nat (maxRetries - int attempt))")
     auto

declare retryLoop.simps [simp del]

text \<open>
  \<open>apiKey\<close> is the module constant read from \<open>import.meta.env.VITE_GEMINI_API_KEY\<close>
  (\<open>None\<close>: not set). The result is the events of the call and what it returns or throws.
\<close>

definition analyzeContractWithGemini ::
  "jsstring option \<Rightarrow> jsengine \<Rightarrow> transport \<Rightarrow> jsstring \<Rightarrow> int
     \<Rightarrow> event list \<times> (thrown + AnalysisResult)" where
  "analyzeContractWithGemini apiKey E T contractText maxRetries =
     (if \<not> truthy (map_option JStr apiKey)
      then ([], Inl (GeminiError (js ''Gemini API key not configured'') (js ''NO_API_KEY'')))
      else if \<not> truthy (Some (JStr contractText)) \<or> length (trim contractText) < 100
      then ([], Inl (GeminiError (js ''Contract text too short for analysis'') (js ''INVALID_INPUT'')))
      else retryLoop E T (buildAnalysisPrompt contractText) maxRetries 0 [])"

text \<open>The default of the parameter \<open>maxRetries\<close>.\<close>

definition maxRetriesDefault :: int where
  "maxRetriesDefault = 3"

section \<open>\<open>src/components/AnalysisResults.tsx\<close>\<close>

record RiskLevel =
  label_rl :: string
  color :: string
  bg :: string

definition getRiskLevel :: "jsnumber \<Rightarrow> RiskLevel" where
  "getRiskLevel score =
     (if score = Finite 0
      then \<lparr>label_rl = ''Low Risk'', color = ''text-green-600'', bg = ''bg-green-100''\<rparr>
      else if num_less score (Finite 30)
      then \<lparr>label_rl = ''Moderate Risk'', color = ''text-yellow-600'', bg = ''bg-yellow-100''\<rparr>
      else if num_less score (Finite 60)
      then \<lparr>label_rl = ''High Risk'', color = ''text-orange-600'', bg = ''bg-orange-100''\<rparr>
      else \<lparr>label_rl = ''Critical Risk'', color = ''text-red-600'', bg = ''bg-red-100''\<rparr>)"

section \<open>Reference definitions\<close>

text \<open>
  Modelled from the spec: the risk-scoring function of section 4.3 (the scorer itself is
  not among the sources: \<open>parseGeminiResponse\<close> never calls one). High = 30, medium = 15,
  low = 5 points, summed over the malicious flagged clauses, capped at 100.
\<close>

definition severityPoints :: "jsvalue \<Rightarrow> nat" where
  "severityPoints v =
     (if v = Some (JStr (js ''high'')) then 30
      else if v = Some (JStr (js ''medium'')) then 15
      else if v = Some (JStr (js ''low'')) then 5
      else 0)"

definition riskScore :: "FlaggedClause list \<Rightarrow> nat" where
  "riskScore fcs =
     min 100 (sum_list (map (\<lambda>f. severityPoints (severity (clause f)))
                          (filter (\<lambda>f. isMalicious (clause f) = Some (JBool True)) fcs)))"

text \<open>
  The schema check in the words of section 4.5, step 3: a response violates the schema
  when a required top-level field is missing or has the wrong type, when
  \<open>overallRiskScore\<close> is outside \<open>[0, 100]\<close>, or when \<open>riskLevel\<close> is none of the four
  levels. The types are those JavaScript can tell apart at run time: \<open>keyDetails\<close> an
  object (an array is one; \<open>null\<close> is not), \<open>flaggedClauses\<close> and \<open>recommendations\<close> arrays,
  \<open>overallRiskScore\<close> a number, \<open>riskLevel\<close> and \<open>summary\<close> strings.
\<close>

definition requiredFields :: "jsstring list" where
  "requiredFields =
     [js ''keyDetails'', js ''flaggedClauses'', js ''overallRiskScore'', js ''riskLevel'',
      js ''summary'', js ''recommendations'']"

definition isObject :: "jsvalue \<Rightarrow> bool" where
  "isObject v \<longleftrightarrow> typeof v = ''object'' \<and> v \<noteq> Some JNull"

definition schemaViolation :: "json \<Rightarrow> bool" where
  "schemaViolation data \<longleftrightarrow>
     list_ex (\<lambda>k. getProp data k = None) requiredFields
     \<or> \<not> isObject (getProp data (js ''keyDetails''))
     \<or> \<not> isArray (getProp data (js ''flaggedClauses''))
     \<or> typeof (getProp data (js ''overallRiskScore'')) \<noteq> ''number''
     \<or> typeof (getProp data (js ''riskLevel'')) \<noteq> ''string''
     \<or> typeof (getProp data (js ''summary'')) \<noteq> ''string''
     \<or> \<not> isArray (getProp data (js ''recommendations''))
     \<or> js_lt (getProp data (js ''overallRiskScore'')) (Finite 0)
     \<or> js_gt (getProp data (js ''overallRiskScore'')) (Finite 100)
     \<or> \<not> arrayIncludes validRiskLevels (getProp data (js ''riskLevel''))"

text \<open>
  The fields of \<open>keyDetails\<close> that lines 244 to 267 convert, each with the label and the
  category of its entry.
\<close>

definition keyDetailFields :: "(jsstring \<times> jsstring \<times> jsstring) list" where
  "keyDetailFields =
     [(js ''propertyAddress'', js ''Property Address'', js ''other''),
      (js ''landlordName'', js ''Landlord Name'', js ''other''),
      (js ''monthlyRent'', js ''Monthly Rent'', js ''rent''),
      (js ''securityDeposit'', js ''Security Deposit'', js ''security_deposit''),
      (js ''petDeposit'', js ''Pet Deposit'', js ''security_deposit''),
      (js ''leaseStartDate'', js ''Lease Start Date'', js ''termination''),
      (js ''leaseEndDate'', js ''Lease End Date'', js ''termination''),
      (js ''noticePeriod'', js ''Notice Period'', js ''termination'')]"

text \<open>
  An attempt fails transiently when the response is empty, does not parse, or does not
  pass the validator: the three failures that raise a \<open>GeminiError\<close> inside the \<open>try\<close>
  block.
\<close>

definition transientFailure :: "jsengine \<Rightarrow> outcome \<Rightarrow> bool" where
  "transientFailure E oc =
     (case oc of
        Fails m \<Rightarrow> False
      | Text t \<Rightarrow>
          t = [] \<or>
          (case JSON_parse E (cleanedResponse t) of
             None \<Rightarrow> True
           | Some data \<Rightarrow> \<not> validateAnalysisResult data))"

text \<open>
  The events of the attempts \<open>0, \<dots>, k - 1\<close> when each of them fails and is retried: the
  call, the warning with the message of the failure, and the sleep of \<open>2 ^ i\<close> seconds.
\<close>

definition failureMessage :: "thrown + AnalysisResult \<Rightarrow> jsstring" where
  "failureMessage x = (case x of Inl e \<Rightarrow> message e | Inr r \<Rightarrow> [])"

fun backoffEvents :: "jsengine \<Rightarrow> transport \<Rightarrow> jsstring \<Rightarrow> nat \<Rightarrow> event list" where
  "backoffEvents E T prompt 0 = []"
| "backoffEvents E T prompt (Suc i) =
     backoffEvents E T prompt i
     @ [GenerateContent prompt,
        ConsoleWarn (js ''Gemini attempt '' @ decimal (i + 1) @ js '' failed:'')
          (failureMessage (tryAttempt E (T prompt i))),
        Sleep (2 ^ i * 1000)]"

text \<open>What the attempt that ends the loop hands to the caller (lines 348 and 361 to 369).\<close>

definition lastAttemptResult :: "thrown + AnalysisResult \<Rightarrow> thrown + AnalysisResult" where
  "lastAttemptResult x =
     (case x of
        Inr r \<Rightarrow> Inr r
      | Inl (GeminiError m c) \<Rightarrow> Inl (GeminiError m c)
      | Inl (JsError m) \<Rightarrow> Inl (GeminiError m (js ''UNKNOWN_ERROR''))
      | Inl NonError \<Rightarrow>
          Inl (GeminiError (js ''Unknown error during Gemini analysis'') (js ''UNKNOWN_ERROR'')))"

section \<open>Sample inputs\<close>

text \<open>
  A response as the prompt asks for it: one key detail given, one \<open>null\<close>, the tenant's
  name, and one flagged clause.
\<close>

definition sampleText :: jsstring where
  \<open>sampleText = js ''{"keyDetails":{"monthlyRent":"$2,000","tenantName":"Sam Lee","petDeposit":null},"flaggedClauses":[{"clauseText":"Deposit is non-refundable","category":"security_deposit","severity":"high","isMalicious":true,"violation":"Non-refundable deposit","legalReference":"BC RTA Section 19","explanation":"Deposits must be refundable","recommendation":"Ask to remove it"}],"overallRiskScore":30,"riskLevel":"high","summary":"One violation.","recommendations":["Negotiate"]}''\<close>

definition sampleData :: json where
  "sampleData = JObj
     [(js ''keyDetails'', JObj
         [(js ''monthlyRent'', JStr (js ''$2,000'')),
          (js ''tenantName'', JStr (js ''Sam Lee'')),
          (js ''petDeposit'', JNull)]),
      (js ''flaggedClauses'', JArr
         [JObj [(js ''clauseText'', JStr (js ''Deposit is non-refundable'')),
                (js ''category'', JStr (js ''security_deposit'')),
                (js ''severity'', JStr (js ''high'')),
                (js ''isMalicious'', JBool True),
                (js ''violation'', JStr (js ''Non-refundable deposit'')),
                (js ''legalReference'', JStr (js ''BC RTA Section 19'')),
                (js ''explanation'', JStr (js ''Deposits must be refundable'')),
                (js ''recommendation'', JStr (js ''Ask to remove it''))]]),
      (js ''overallRiskScore'', JNum (Finite 30)),
      (js ''riskLevel'', JStr (js ''high'')),
      (js ''summary'', JStr (js ''One violation.'')),
      (js ''recommendations'', JArr [JStr (js ''Negotiate'')])]"

definition sampleResult :: AnalysisResult where
  "sampleResult =
     \<lparr>summary = Some (JStr (js ''One violation.'')),
      keyDetails =
        [\<lparr>label = js ''Monthly Rent'', value_kd = Some (JStr (js ''$2,000'')),
          category = js ''rent''\<rparr>],
      flaggedClauses =
        [\<lparr>clause =
            \<lparr>id_cp = js ''gemini-0'',
             category_cp = Some (JStr (js ''security_deposit'')),
             name_cp = Some (JStr (js ''Non-refundable deposit'')),
             description = Some (JStr (js ''Deposits must be refundable'')),
             keywords_cp = [],
             isMalicious = Some (JBool True),
             severity = Some (JStr (js ''high'')),
             legalReference = Some (JStr (js ''BC RTA Section 19'')),
             explanation = Some (JStr (js ''Deposits must be refundable''))\<rparr>,
          matchedText = Some (JStr (js ''Deposit is non-refundable'')),
          position = 0,
          aiInsight = Some (JStr (js ''Ask to remove it''))\<rparr>],
      overallRiskScore = Some (JNum (Finite 30)),
      recommendations = Some (JArr [JStr (js ''Negotiate'')]),
      analysisMethod = js ''gemini'',
      confidence = 95\<rparr>"

text \<open>A response with every field present and of the right type, and an empty summary.\<close>

definition emptySummaryText :: jsstring where
  \<open>emptySummaryText = js ''{"keyDetails":{},"flaggedClauses":[],"overallRiskScore":0,"riskLevel":"low","summary":"","recommendations":[]}''\<close>

definition emptySummaryData :: json where
  "emptySummaryData = JObj
     [(js ''keyDetails'', JObj []),
      (js ''flaggedClauses'', JArr []),
      (js ''overallRiskScore'', JNum (Finite 0)),
      (js ''riskLevel'', JStr (js ''low'')),
      (js ''summary'', JStr []),
      (js ''recommendations'', JArr [])]"

text \<open>
  A response that declares the score 100 and flags no clause, and whose monthly rent is
  the empty string.
\<close>

definition declaredText :: jsstring where
  \<open>declaredText = js ''{"keyDetails":{"monthlyRent":""},"flaggedClauses":[],"overallRiskScore":100,"riskLevel":"critical","summary":"Dangerous lease.","recommendations":[]}''\<close>

definition declaredData :: json where
  "declaredData = JObj
     [(js ''keyDetails'', JObj [(js ''monthlyRent'', JStr [])]),
      (js ''flaggedClauses'', JArr []),
      (js ''overallRiskScore'', JNum (Finite 100)),
      (js ''riskLevel'', JStr (js ''critical'')),
      (js ''summary'', JStr (js ''Dangerous lease.'')),
      (js ''recommendations'', JArr [])]"

definition declaredResult :: AnalysisResult where
  "declaredResult =
     \<lparr>summary = Some (JStr (js ''Dangerous lease.'')),
      keyDetails = [],
      flaggedClauses = [],
      overallRiskScore = Some (JNum (Finite 100)),
      recommendations = Some (JArr []),
      analysisMethod = js ''gemini'',
      confidence = 95\<rparr>"

text \<open>
  An engine for the samples: \<open>JSON.parse\<close> on the three texts above gives the three values;
  the other texts that the samples hand to it (a text that begins with a backtick, a
  sentence) are not JSON, and it throws on them.
\<close>

definition sampleEngine :: jsengine where
  \<open>sampleEngine =
     \<lparr>JSON_parse =
        map_of [(sampleText, sampleData), (emptySummaryText, emptySummaryData),
                (declaredText, declaredData)],
      nullReadMessage = js ''Cannot read properties of null (reading 'category')''\<rparr>\<close>

text \<open>The sample response inside a \<open>json\<close> code fence.\<close>

definition fencedSampleText :: jsstring where
  "fencedSampleText = js ''```json'' @ [0x0A] @ sampleText @ [0x0A] @ js ''```''"

definition sampleContract :: jsstring where
  \<open>sampleContract = js ''RESIDENTIAL TENANCY AGREEMENT. The tenant shall pay a monthly rent of $2,000 and a non-refundable security deposit of $1,500.''\<close>

text \<open>Two empty or unparsable responses, then the sample response.\<close>

definition sampleTransport :: transport where
  "sampleTransport prompt attempt =
     (if attempt = 0 then Text []
      else if attempt = 1 then Text (js ''I am sorry, I cannot analyze this document.'')
      else Text sampleText)"

text \<open>A network that is down: every call rejects with an \<open>Error\<close>.\<close>

definition downTransport :: transport where
  "downTransport prompt attempt = Fails (Some (js ''Failed to fetch''))"

section \<open>Strings: basic facts\<close>

lemma unat_of_char_word: "unat (of_char c :: 16 word) = of_char c"
proof -
  have "(of_char c :: nat) < 65536" using nat_of_char_less_256 [of c] by linarith
  hence lt: "(of_char c :: nat) < 2 ^ LENGTH(16)" by simp
  have "(of_char c :: 16 word) = of_nat (of_char c)" by (simp add: of_nat_of_char)
  hence "unat (of_char c :: 16 word) = of_char c mod 2 ^ LENGTH(16)"
    by (metis unat_of_nat)
  thus ?thesis using lt by simp
qed

lemma of_char_word_eq_iff: "(of_char c :: 16 word) = of_char d \<longleftrightarrow> c = d"
proof
  assume "(of_char c :: 16 word) = of_char d"
  hence "unat (of_char c :: 16 word) = unat (of_char d :: 16 word)" by simp
  hence "(of_char c :: nat) = of_char d" by (simp only: unat_of_char_word)
  thus "c = d" by simp
qed simp

lemma js_eq_iff: "js s = js t \<longleftrightarrow> s = t"
  unfolding js_def
  by (rule inj_map_eq_map) (simp add: inj_on_def of_char_word_eq_iff)

lemma js_Nil: "js [] = []"
  by (simp add: js_def)

lemma js_Cons: "js (c # s) = of_char c # js s"
  by (simp add: js_def)

lemma js_append: "js (s @ t) = js s @ js t"
  by (simp add: js_def)

lemma length_js: "length (js s) = length s"
  by (simp add: js_def)

lemma js_eq_Nil_iff: "js s = [] \<longleftrightarrow> s = []"
  by (simp add: js_def)

lemma dropWhile_append_stop:
  "ys \<noteq> [] \<Longrightarrow> \<not> P (hd ys) \<Longrightarrow> dropWhile P (xs @ ys) = dropWhile P xs @ ys"
  by (induction xs) (auto simp: neq_Nil_conv)

lemma dropWhile_all:
  "\<forall>c \<in> set ws. P c \<Longrightarrow> dropWhile P (ws @ s) = dropWhile P s"
  by (induction ws) simp_all

lemma trimEnd_append_white:
  "\<forall>c \<in> set ws. isWhiteSpace c \<Longrightarrow> trimEnd (s @ ws) = trimEnd s"
  using dropWhile_all [of "rev ws" isWhiteSpace "rev s"] by (simp add: trimEnd_def)

lemma trimStart_white: "\<forall>c \<in> set ws. isWhiteSpace c \<Longrightarrow> trimStart ws = []"
  using dropWhile_all [of ws isWhiteSpace "[]"] by (simp add: trimStart_def)

lemma trimStart_white_append:
  "\<forall>c \<in> set ws. isWhiteSpace c \<Longrightarrow> trimStart (ws @ s) = trimStart s"
  by (simp add: trimStart_def dropWhile_all)

lemma trimEnd_Nil: "trimEnd [] = []"
  by (simp add: trimEnd_def)

lemma trim_append_white:
  assumes "\<forall>c \<in> set ws. isWhiteSpace c"
  shows "trim (s @ ws) = trim s"
proof (cases "\<forall>c \<in> set s. isWhiteSpace c")
  case True
  with assms have "\<forall>c \<in> set (s @ ws). isWhiteSpace c" by auto
  hence "trimStart (s @ ws) = []" by (rule trimStart_white)
  moreover have "trimStart s = []" using True by (rule trimStart_white)
  ultimately show ?thesis by (simp add: trim_def)
next
  case False
  then obtain x where "x \<in> set s" "\<not> isWhiteSpace x" by auto
  hence "dropWhile isWhiteSpace (s @ ws) = dropWhile isWhiteSpace s @ ws"
    by (rule dropWhile_append1)
  hence "trimStart (s @ ws) = trimStart s @ ws"
    by (simp add: trimStart_def)
  thus ?thesis using assms by (simp add: trim_def trimEnd_append_white)
qed

lemma trim_fixed:
  assumes "s \<noteq> []" "\<not> isWhiteSpace (hd s)" "\<not> isWhiteSpace (last s)"
  shows "trim s = s"
proof -
  have a: "trimStart s = s" using assms(1,2) by (cases s) (simp_all add: trimStart_def)
  have "rev s \<noteq> []" "\<not> isWhiteSpace (hd (rev s))" using assms by (simp_all add: hd_rev)
  hence "dropWhile isWhiteSpace (rev s) = rev s" by (cases "rev s") simp_all
  thus ?thesis by (simp add: trim_def a trimEnd_def)
qed

lemma backtick_not_white: "\<not> isWhiteSpace 0x60"
  by (simp add: isWhiteSpace_def)

lemma js_fence: "js ''```'' = [0x60, 0x60, 0x60]"
  by (simp add: js_def)

lemma js_fence_json: "js ''```json'' = [0x60, 0x60, 0x60, 0x6A, 0x73, 0x6F, 0x6E]"
  by (simp add: js_def)

lemma startsWith_append_same: "startsWith (m @ s) m"
  by (simp add: startsWith_def)

lemma endsWith_append_same: "endsWith (s @ m) m"
  by (simp add: endsWith_def)

lemma replaceTrailingFence_append: "replaceTrailingFence (s @ js ''```'') = trimEnd s"
  by (simp add: replaceTrailingFence_def endsWith_append_same) (simp add: js_fence)

lemma replaceLeading_append:
  "replaceLeading m (m @ s) = trimStart s"
  by (simp add: replaceLeading_def startsWith_append_same trimStart_def)

lemma strip_fence_body:
  assumes pre: "\<forall>c \<in> set pre. isWhiteSpace c" and post: "\<forall>c \<in> set post. isWhiteSpace c"
  shows "replaceTrailingFence (replaceLeading m (m @ pre @ payload @ post @ js ''```''))
           = trim payload"
proof -
  have "replaceLeading m (m @ pre @ payload @ post @ js ''```'')
          = trimStart ((payload @ post) @ js ''```'')"
    using pre by (simp add: replaceLeading_append trimStart_white_append)
  also have "\<dots> = trimStart (payload @ post) @ js ''```''"
    unfolding trimStart_def
    by (rule dropWhile_append_stop) (simp_all add: js_fence backtick_not_white)
  finally have "replaceTrailingFence (replaceLeading m (m @ pre @ payload @ post @ js ''```''))
          = trimEnd (trimStart (payload @ post))"
    by (simp add: replaceTrailingFence_append)
  thus ?thesis using post by (simp add: trim_append_white [unfolded trim_def] trim_def)
qed

lemma cleanedResponse_fenced:
  assumes m: "m = js ''```json'' \<or> m = js ''```''"
    and pre: "pre \<noteq> []" "\<forall>c \<in> set pre. isWhiteSpace c"
    and post: "\<forall>c \<in> set post. isWhiteSpace c"
  shows "cleanedResponse (m @ pre @ payload @ post @ js ''```'') = trim payload"
proof -
  define w where "w = m @ pre @ payload @ post @ js ''```''"
  have "hd w = 0x60" using m by (auto simp: w_def js_fence js_fence_json)
  moreover have "last w = 0x60" by (simp add: w_def js_fence)
  moreover have "w \<noteq> []" by (simp add: w_def js_fence)
  ultimately have tw: "trim w = w"
    by (intro trim_fixed) (simp_all add: backtick_not_white)
  have body: "replaceTrailingFence (replaceLeading m w) = trim payload"
    unfolding w_def using pre(2) post by (rule strip_fence_body)
  have sw: "startsWith w m" unfolding w_def by (rule startsWith_append_same)
  show ?thesis
  proof (cases "m = js ''```json''")
    case True
    hence "startsWith w (js ''```json'')" using sw by simp
    hence "cleanedResponse w = replaceTrailingFence (replaceLeading (js ''```json'') w)"
      by (simp add: cleanedResponse_def Let_def tw)
    thus ?thesis using body True by (simp add: w_def)
  next
    case False
    with m have m3: "m = js ''```''" by simp
    obtain c cs where pc: "pre = c # cs" using pre(1) by (cases pre) auto
    hence "isWhiteSpace c" using pre(2) by simp
    hence "c \<noteq> 0x6A" by (auto simp: isWhiteSpace_def)
    hence "\<not> startsWith w (js ''```json'')"
      by (simp add: w_def m3 pc startsWith_def js_fence js_fence_json)
    moreover have "startsWith w (js ''```'')" using sw m3 by simp
    ultimately have "cleanedResponse w = replaceTrailingFence (replaceLeading (js ''```'') w)"
      by (simp add: cleanedResponse_def Let_def tw)
    thus ?thesis using body m3 by (simp add: w_def)
  qed
qed

lemma startsWith_appendD: "startsWith s (a @ b) \<Longrightarrow> startsWith s a"
proof -
  assume "startsWith s (a @ b)"
  hence h: "take (length a + length b) s = a @ b" by (simp add: startsWith_def)
  have "take (length a) s = take (length a) (take (length a + length b) s)" by simp
  also have "\<dots> = a" by (simp only: h) simp
  finally show ?thesis by (simp add: startsWith_def)
qed

lemma startsWith_json_fence: "startsWith s (js ''```json'') \<Longrightarrow> startsWith s (js ''```'')"
  using startsWith_appendD [of s "js ''```''" "js ''json''"] by (simp add: js_def)

lemma cleanedResponse_plain:
  "\<not> startsWith (trim s) (js ''```'') \<Longrightarrow> cleanedResponse s = trim s"
  using startsWith_json_fence [of "trim s"]
  by (auto simp: cleanedResponse_def Let_def)

lemma length_trim_le: "length (trim s) \<le> length s"
proof -
  have "length (trim s) \<le> length (trimStart s)"
    using length_dropWhile_le [of isWhiteSpace "rev (trimStart s)"]
    by (simp add: trim_def trimEnd_def)
  also have "\<dots> \<le> length s"
    by (simp add: trimStart_def length_dropWhile_le)
  finally show ?thesis .
qed

lemma hd_js: "hd (js (c # s)) = of_char c"
  by (simp add: js_def)

lemma last_js: "s \<noteq> [] \<Longrightarrow> last (js s) = of_char (last s)"
  by (simp add: js_def last_map)

section \<open>The samples, evaluated\<close>

lemma clean_text:
  assumes "s \<noteq> []" "\<not> isWhiteSpace (hd s)" "\<not> isWhiteSpace (last s)" "hd s \<noteq> 0x60"
  shows "cleanedResponse s = s"
proof -
  have t: "trim s = s" using assms(1-3) by (rule trim_fixed)
  have "\<not> startsWith s (js ''```'')"
    using assms(1,4) by (cases s) (auto simp: startsWith_def js_fence)
  thus ?thesis using cleanedResponse_plain [of s] by (simp add: t)
qed

lemma clean_js_text:
  assumes "s \<noteq> []" "\<not> isWhiteSpace (of_char (hd s))" "\<not> isWhiteSpace (of_char (last s))"
    "hd s \<noteq> CHR 0x60"
  shows "cleanedResponse (js s) = js s"
proof (rule clean_text)
  obtain c cs where s: "s = c # cs" using assms(1) by (cases s) auto
  show "js s \<noteq> []" using assms(1) by (simp add: js_eq_Nil_iff)
  show "\<not> isWhiteSpace (hd (js s))" using assms(2) by (simp add: s js_Cons)
  show "\<not> isWhiteSpace (last (js s))" using assms(1,3) by (simp add: last_js)
  have "(of_char c :: 16 word) \<noteq> of_char (CHR 0x60)"
    using assms(4) s by (metis of_char_word_eq_iff list.sel(1))
  thus "hd (js s) \<noteq> 0x60" by (simp add: s js_Cons)
qed

lemma hd_samples:
  "hd sampleText = 0x7B" "hd emptySummaryText = 0x7B" "hd declaredText = 0x7B"
  by (simp_all add: sampleText_def emptySummaryText_def declaredText_def hd_js)

lemma trim_sampleText: "trim sampleText = sampleText"
proof -
  have "sampleText \<noteq> []" by (simp add: sampleText_def js_eq_Nil_iff)
  moreover have "\<not> isWhiteSpace (hd sampleText)"
    by (simp add: hd_samples isWhiteSpace_def)
  moreover have "\<not> isWhiteSpace (last sampleText)"
    unfolding sampleText_def by (subst last_js) (simp_all add: isWhiteSpace_def)
  ultimately show ?thesis by (rule trim_fixed)
qed

lemma line_feed_white: "\<forall>c \<in> set [0x0A]. isWhiteSpace c"
  by (simp add: isWhiteSpace_def)

lemma not_fence_start: "s \<noteq> [] \<Longrightarrow> hd s \<noteq> 0x60 \<Longrightarrow> \<not> startsWith s (js ''```'')"
  by (cases s) (auto simp: startsWith_def js_fence)

lemma not_fence_sampleText: "\<not> startsWith (trim sampleText) (js ''```'')"
  unfolding trim_sampleText
  by (rule not_fence_start) (simp_all add: hd_samples, simp add: sampleText_def js_eq_Nil_iff)

lemma clean_sampleText: "cleanedResponse sampleText = sampleText"
  using cleanedResponse_plain [OF not_fence_sampleText] by (simp add: trim_sampleText)

lemma clean_emptySummaryText: "cleanedResponse emptySummaryText = emptySummaryText"
  unfolding emptySummaryText_def by (rule clean_js_text) (simp_all add: isWhiteSpace_def)

lemma clean_declaredText: "cleanedResponse declaredText = declaredText"
  unfolding declaredText_def by (rule clean_js_text) (simp_all add: isWhiteSpace_def)

lemma sample_texts_distinct:
  "emptySummaryText \<noteq> sampleText" "declaredText \<noteq> sampleText" "declaredText \<noteq> emptySummaryText"
  by (simp_all add: sampleText_def emptySummaryText_def declaredText_def js_eq_iff)

lemma JSON_parse_samples:
  "JSON_parse sampleEngine sampleText = Some sampleData"
  "JSON_parse sampleEngine emptySummaryText = Some emptySummaryData"
  "JSON_parse sampleEngine declaredText = Some declaredData"
  using sample_texts_distinct by (simp_all add: sampleEngine_def)

lemma validate_sampleData: "validateAnalysisResult sampleData"
  by (simp add: validateAnalysisResult_def sampleData_def validRiskLevels_def js_eq_iff js_eq_Nil_iff)

lemma parse_sampleText: "parseGeminiResponse sampleEngine sampleText = Inr sampleResult"
  by (simp add: parseGeminiResponse_def clean_sampleText JSON_parse_samples validate_sampleData)
     (simp add: sampleData_def sampleResult_def convertKeyDetails_def pushDetail_def
        convertClause_def js_eq_iff js_eq_Nil_iff js_def [of "''gemini-0''"] js_def [of "''gemini-''"]
        decimal.simps)

lemma validate_declaredData: "validateAnalysisResult declaredData"
  by (simp add: validateAnalysisResult_def declaredData_def validRiskLevels_def js_eq_iff
        js_eq_Nil_iff)

lemma parse_declaredText: "parseGeminiResponse sampleEngine declaredText = Inr declaredResult"
  by (simp add: parseGeminiResponse_def clean_declaredText JSON_parse_samples
        validate_declaredData)
     (simp add: declaredData_def declaredResult_def convertKeyDetails_def pushDetail_def
        js_eq_iff)

lemma not_violation_emptySummaryData: "\<not> schemaViolation emptySummaryData"
  by (simp add: schemaViolation_def emptySummaryData_def requiredFields_def isObject_def
        validRiskLevels_def js_eq_iff)

lemma summary_emptySummaryData: "getProp emptySummaryData (js ''summary'') = Some (JStr [])"
  by (simp add: emptySummaryData_def js_eq_iff)

section \<open>The validator and the parser: basic facts\<close>

lemma truthy_object_iff:
  "truthy v \<and> typeof v = ''object'' \<longleftrightarrow> isObject v"
  by (cases v rule: truthy.cases) (simp_all add: isObject_def)

lemma truthy_string_iff:
  "truthy v \<and> typeof v = ''string'' \<longleftrightarrow> typeof v = ''string'' \<and> v \<noteq> Some (JStr [])"
  by (cases v rule: truthy.cases) simp_all

lemma getProp_data_None:
  "\<not> (truthy (Some data) \<and> typeof (Some data) = ''object'') \<Longrightarrow> getProp data k = None"
  by (cases data) simp_all

lemma empty_not_risk_level: "[] \<notin> set validRiskLevels"
  by (simp add: validRiskLevels_def js_def)

lemma validateAnalysisResult_iff:
  "validateAnalysisResult data \<longleftrightarrow>
     \<not> schemaViolation data \<and> getProp data (js ''summary'') \<noteq> Some (JStr [])"
proof (cases "truthy (Some data) \<and> typeof (Some data) = ''object''")
  case False
  hence "getProp data (js ''keyDetails'') = None" by (rule getProp_data_None)
  hence "schemaViolation data" by (simp add: schemaViolation_def isObject_def)
  moreover have "\<not> validateAnalysisResult data"
    using False by (auto simp: validateAnalysisResult_def)
  ultimately show ?thesis by simp
next
  case True
  have missing: "list_ex (\<lambda>k. getProp data k = None) requiredFields \<Longrightarrow>
      \<not> isObject (getProp data (js ''keyDetails''))
      \<or> \<not> isArray (getProp data (js ''flaggedClauses''))
      \<or> typeof (getProp data (js ''overallRiskScore'')) \<noteq> ''number''
      \<or> typeof (getProp data (js ''riskLevel'')) \<noteq> ''string''
      \<or> typeof (getProp data (js ''summary'')) \<noteq> ''string''
      \<or> \<not> isArray (getProp data (js ''recommendations''))"
    by (auto simp: requiredFields_def isObject_def)
  show ?thesis
    using True missing truthy_object_iff [of "getProp data (js ''keyDetails'')"]
      truthy_string_iff [of "getProp data (js ''summary'')"]
      truthy_string_iff [of "getProp data (js ''riskLevel'')"]
    unfolding validateAnalysisResult_def schemaViolation_def
    by (auto simp: empty_not_risk_level)
qed

lemma convertClauses_thrown:
  "convertClauses m i cs = Inl e \<Longrightarrow> e = JsError m"
  by (induction cs arbitrary: i) (auto split: if_splits sum.splits)

lemma convertClauses_ok:
  "JNull \<notin> set cs \<Longrightarrow>
     convertClauses m i cs = Inr (map (\<lambda>(k, c). convertClause k c) (zip [i..<i + length cs] cs))"
proof (induction cs arbitrary: i)
  case Nil
  show ?case by simp
next
  case (Cons c cs)
  have c: "c \<noteq> JNull" and cs: "JNull \<notin> set cs" using Cons.prems by auto
  have upt: "[i..<i + length (c # cs)] = i # [Suc i..<Suc i + length cs]"
    by (subst upt_rec) simp
  have "convertClauses m i (c # cs) =
          Inr (convertClause i c
               # map (\<lambda>(k, c). convertClause k c) (zip [Suc i..<Suc i + length cs] cs))"
    using c Cons.IH [OF cs, of "Suc i"] by simp
  thus ?case by (simp only: upt zip_Cons_Cons list.map split_conv)
qed

lemma parse_PARSE_ERROR_iff:
  "(\<exists>m. parseGeminiResponse E r = Inl (GeminiError m (js ''PARSE_ERROR'')))
     \<longleftrightarrow> JSON_parse E (cleanedResponse r) = None"
  by (auto simp: parseGeminiResponse_def Let_def js_eq_iff split: option.splits sum.splits
           dest: convertClauses_thrown)

lemma parse_VALIDATION_ERROR_iff:
  "(\<exists>m. parseGeminiResponse E r = Inl (GeminiError m (js ''VALIDATION_ERROR'')))
     \<longleftrightarrow> (\<exists>data. JSON_parse E (cleanedResponse r) = Some data \<and> \<not> validateAnalysisResult data)"
  by (auto simp: parseGeminiResponse_def Let_def js_eq_iff split: option.splits sum.splits
           dest: convertClauses_thrown)

lemma parse_Inr_iff:
  "parseGeminiResponse E r = Inr res \<longleftrightarrow>
     (\<exists>data fcs. JSON_parse E (cleanedResponse r) = Some data \<and> validateAnalysisResult data
        \<and> convertClauses (nullReadMessage E) 0 (elements (getProp data (js ''flaggedClauses'')))
            = Inr fcs
        \<and> res = \<lparr>summary = getProp data (js ''summary''),
                   keyDetails = convertKeyDetails (getProp data (js ''keyDetails'')),
                   flaggedClauses = fcs,
                   overallRiskScore = getProp data (js ''overallRiskScore''),
                   recommendations = getProp data (js ''recommendations''),
                   analysisMethod = js ''gemini'',
                   confidence = 95\<rparr>)"
  by (auto simp: parseGeminiResponse_def Let_def split: option.splits sum.splits)

lemma keyDetailFields_labels_distinct: "distinct (map (\<lambda>row. fst (snd row)) keyDetailFields)"
  by (simp add: keyDetailFields_def js_eq_iff)

lemma pushDetail_table:
  "pushDetail m f l c =
     map (\<lambda>row. \<lparr>label = fst (snd row), value_kd = member m (fst row),
                  category = snd (snd row)\<rparr>)
       (filter (\<lambda>row. truthy (member m (fst row))) [(f, l, c)])"
  by (simp add: pushDetail_def)

lemma convertKeyDetails_table:
  "convertKeyDetails m =
     map (\<lambda>row. \<lparr>label = fst (snd row), value_kd = member m (fst row),
                  category = snd (snd row)\<rparr>)
       (filter (\<lambda>row. truthy (member m (fst row))) keyDetailFields)"
proof -
  have tbl: "keyDetailFields =
      [(js ''propertyAddress'', js ''Property Address'', js ''other'')]
    @ [(js ''landlordName'', js ''Landlord Name'', js ''other'')]
    @ [(js ''monthlyRent'', js ''Monthly Rent'', js ''rent'')]
    @ [(js ''securityDeposit'', js ''Security Deposit'', js ''security_deposit'')]
    @ [(js ''petDeposit'', js ''Pet Deposit'', js ''security_deposit'')]
    @ [(js ''leaseStartDate'', js ''Lease Start Date'', js ''termination'')]
    @ [(js ''leaseEndDate'', js ''Lease End Date'', js ''termination'')]
    @ [(js ''noticePeriod'', js ''Notice Period'', js ''termination'')]"
    by (simp add: keyDetailFields_def)
  show ?thesis
    unfolding tbl
    by (simp only: convertKeyDetails_def pushDetail_table filter_append map_append)
qed

lemma filter_label_table:
  assumes d: "distinct (map (\<lambda>row. fst (snd row)) tbl)" and i: "(f, l, c) \<in> set tbl"
  shows "filter (\<lambda>d. label d = l)
           (map (\<lambda>row. \<lparr>label = fst (snd row), value_kd = member m (fst row),
                        category = snd (snd row)\<rparr>)
              (filter (\<lambda>row. truthy (member m (fst row))) tbl))
         = (if truthy (member m f)
            then [\<lparr>label = l, value_kd = member m f, category = c\<rparr>] else [])"
  using d i
proof (induction tbl)
  case Nil
  thus ?case by simp
next
  case (Cons row tbl)
  have notin: "fst (snd row) \<notin> (\<lambda>row. fst (snd row)) ` set tbl"
    and dt: "distinct (map (\<lambda>row. fst (snd row)) tbl)"
    using Cons.prems(1) by simp_all
  show ?case
  proof (cases "(f, l, c) = row")
    case True
    hence l: "fst (snd row) = l" and f: "fst row = f" and c: "snd (snd row) = c" by auto
    have "\<forall>r \<in> set tbl. fst (snd r) \<noteq> l"
    proof
      fix r
      assume "r \<in> set tbl"
      hence "fst (snd r) \<in> (\<lambda>row. fst (snd row)) ` set tbl" by (rule imageI)
      thus "fst (snd r) \<noteq> l" using notin l by metis
    qed
    hence "filter (\<lambda>d. label d = l)
           (map (\<lambda>row. \<lparr>label = fst (snd row), value_kd = member m (fst row),
                        category = snd (snd row)\<rparr>)
              (filter (\<lambda>row. truthy (member m (fst row))) tbl)) = []"
      by (auto simp: filter_empty_conv)
    thus ?thesis by (simp add: l f c)
  next
    case False
    hence in_tbl: "(f, l, c) \<in> set tbl" using Cons.prems(2) by simp
    hence "l \<in> (\<lambda>row. fst (snd row)) ` set tbl" by force
    hence "fst (snd row) \<noteq> l" using notin by auto
    thus ?thesis using Cons.IH [OF dt in_tbl] by simp
  qed
qed

section \<open>The retry loop: basic facts\<close>

lemma parse_thrown_cases:
  "parseGeminiResponse E t = Inl e \<Longrightarrow>
     (isGeminiError e \<longleftrightarrow>
        (case JSON_parse E (cleanedResponse t) of
           None \<Rightarrow> True
         | Some data \<Rightarrow> \<not> validateAnalysisResult data))"
  by (auto simp: parseGeminiResponse_def Let_def split: option.splits sum.splits if_splits
           dest: convertClauses_thrown)

lemma transientFailure_iff:
  "transientFailure E oc \<longleftrightarrow> (\<exists>e. tryAttempt E oc = Inl e \<and> isGeminiError e)"
proof (cases oc)
  case (Fails m)
  thus ?thesis by (cases m) (simp_all add: transientFailure_def tryAttempt_def)
next
  case (Text t)
  show ?thesis
  proof (cases "t = []")
    case True
    thus ?thesis by (simp add: Text transientFailure_def tryAttempt_def)
  next
    case False
    show ?thesis
    proof (cases "parseGeminiResponse E t")
      case (Inl e)
      thus ?thesis
        using parse_thrown_cases [OF Inl] False
        by (simp add: Text transientFailure_def tryAttempt_def)
    next
      case (Inr res)
      hence "\<exists>data. JSON_parse E (cleanedResponse t) = Some data \<and> validateAnalysisResult data"
        by (auto simp: parse_Inr_iff)
      thus ?thesis using Inr False
        by (auto simp: Text transientFailure_def tryAttempt_def)
    qed
  qed
qed

lemma retryLoop_retry:
  assumes "transientFailure E (T p k)" and "int (Suc k) < n"
  shows "retryLoop E T p n k evs =
           retryLoop E T p n (Suc k)
             (evs @ [GenerateContent p,
                     ConsoleWarn (js ''Gemini attempt '' @ decimal (k + 1) @ js '' failed:'')
                       (failureMessage (tryAttempt E (T p k))),
                     Sleep (2 ^ k * 1000)])"
proof -
  obtain e where e: "tryAttempt E (T p k) = Inl e" "isGeminiError e"
    using assms(1) by (auto simp: transientFailure_iff)
  show ?thesis
    using assms(2) e by (subst retryLoop.simps) (simp add: failureMessage_def)
qed

lemma retryLoop_backoff:
  assumes "\<forall>i<k. transientFailure E (T p i)" and "int k < n"
  shows "retryLoop E T p n 0 [] = retryLoop E T p n k (backoffEvents E T p k)"
  using assms
proof (induction k)
  case 0
  show ?case by simp
next
  case (Suc k)
  have "retryLoop E T p n 0 [] = retryLoop E T p n k (backoffEvents E T p k)"
    using Suc by simp
  also have "\<dots> = retryLoop E T p n (Suc k) (backoffEvents E T p (Suc k))"
    using Suc.prems by (simp add: retryLoop_retry)
  finally show ?case .
qed

lemma retryLoop_last:
  assumes "int k < n" and "\<not> transientFailure E (T p k) \<or> int k = n - 1"
  shows "retryLoop E T p n k evs =
           (evs @ [GenerateContent p], lastAttemptResult (tryAttempt E (T p k)))"
proof (cases "tryAttempt E (T p k)")
  case (Inr r)
  thus ?thesis using assms(1) by (subst retryLoop.simps) (simp add: lastAttemptResult_def)
next
  case (Inl e)
  show ?thesis
  proof (cases e)
    case (GeminiError m c)
    hence "transientFailure E (T p k)" using Inl by (simp add: transientFailure_iff)
    hence "int k = n - 1" using assms(2) by simp
    thus ?thesis
      using Inl GeminiError by (subst retryLoop.simps) (simp add: lastAttemptResult_def)
  next
    case (JsError m)
    thus ?thesis
      using Inl assms(1) by (subst retryLoop.simps) (simp add: lastAttemptResult_def)
  next
    case NonError
    thus ?thesis
      using Inl assms(1) by (subst retryLoop.simps) (simp add: lastAttemptResult_def)
  qed
qed

lemma trim_sampleContract: "trim sampleContract = sampleContract"
  unfolding sampleContract_def
  by (rule trim_fixed)
     (simp_all add: js_eq_Nil_iff hd_js last_js isWhiteSpace_def)

lemma length_sampleContract: "100 \<le> length (trim sampleContract)"
  unfolding trim_sampleContract by (simp add: sampleContract_def length_js)

lemma tryAttempt_sorry:
  "tryAttempt sampleEngine (Text (js ''I am sorry, I cannot analyze this document.'')) =
     Inl (GeminiError (js ''Failed to parse Gemini response as JSON'') (js ''PARSE_ERROR''))"
proof -
  have c: "cleanedResponse (js ''I am sorry, I cannot analyze this document.'')
             = js ''I am sorry, I cannot analyze this document.''"
    by (rule clean_js_text) (simp_all add: isWhiteSpace_def)
  have "JSON_parse sampleEngine (js ''I am sorry, I cannot analyze this document.'') = None"
    by (simp add: sampleEngine_def sampleText_def emptySummaryText_def declaredText_def
          js_eq_iff)
  thus ?thesis
    by (simp add: tryAttempt_def parseGeminiResponse_def c js_eq_Nil_iff)
qed

lemma sampleText_not_empty: "sampleText \<noteq> []"
  by (simp add: sampleText_def js_eq_Nil_iff)

lemma hd_differs: "a \<noteq> [] \<Longrightarrow> hd a \<noteq> hd b \<Longrightarrow> a \<noteq> b"
  by auto

lemma JSON_parse_fencedSampleText: "JSON_parse sampleEngine fencedSampleText = None"
proof -
  have h: "hd fencedSampleText = 0x60" and n: "fencedSampleText \<noteq> []"
    by (simp_all add: fencedSampleText_def js_fence_json)
  have "fencedSampleText \<noteq> sampleText" "fencedSampleText \<noteq> emptySummaryText"
    "fencedSampleText \<noteq> declaredText"
    by (rule hd_differs [OF n], simp add: h hd_samples)+
  thus ?thesis by (simp add: sampleEngine_def)
qed

section \<open>The risk level of a score\<close>

text \<open>
  C6: the risk level is a function of the score alone; for every integer score from 0 to
  100, the score 0 is low risk, 1 to 29 moderate, 30 to 59 high, and 60 or more critical.
\<close>

theorem getRiskLevel_table:
  assumes "0 \<le> n" and "n \<le> 100"
  shows "label_rl (getRiskLevel (Finite (of_int n))) =
           (if n = 0 then ''Low Risk''
            else if n \<le> 29 then ''Moderate Risk''
            else if n \<le> 59 then ''High Risk''
            else ''Critical Risk'')"
  using assms by (simp add: getRiskLevel_def)

theorem getRiskLevel_table_witness:
  "label_rl (getRiskLevel (Finite 0)) = ''Low Risk''
   \<and> label_rl (getRiskLevel (Finite 1)) = ''Moderate Risk''
   \<and> label_rl (getRiskLevel (Finite 29)) = ''Moderate Risk''
   \<and> label_rl (getRiskLevel (Finite 30)) = ''High Risk''
   \<and> label_rl (getRiskLevel (Finite 59)) = ''High Risk''
   \<and> label_rl (getRiskLevel (Finite 60)) = ''Critical Risk''
   \<and> label_rl (getRiskLevel (Finite 100)) = ''Critical Risk''"
  using getRiskLevel_table [of 0] getRiskLevel_table [of 1] getRiskLevel_table [of 29]
    getRiskLevel_table [of 30] getRiskLevel_table [of 59] getRiskLevel_table [of 60]
    getRiskLevel_table [of 100]
  by simp

section \<open>The prompt\<close>

text \<open>
  C9: the prompt is a function of the contract text that embeds at most its first 50,000
  code units: two texts that agree on their first 50,000 code units give the same prompt,
  and no prompt is more than 50,000 code units longer than the prompt of the empty text.
\<close>

theorem buildAnalysisPrompt_first_50000:
  assumes "take 50000 a = take 50000 b"
  shows "buildAnalysisPrompt a = buildAnalysisPrompt b
         \<and> length (buildAnalysisPrompt a) \<le> length (buildAnalysisPrompt []) + 50000"
  using assms by (simp add: buildAnalysisPrompt_def)

theorem buildAnalysisPrompt_first_50000_witness:
  "take 50000 (replicate 50000 (0x61::16 word) @ js ''first'')
     = take 50000 (replicate 50000 0x61 @ js ''second'')
   \<and> replicate 50000 (0x61::16 word) @ js ''first'' \<noteq> replicate 50000 0x61 @ js ''second''
   \<and> buildAnalysisPrompt (replicate 50000 0x61 @ js ''first'')
     = buildAnalysisPrompt (replicate 50000 0x61 @ js ''second'')"
  using buildAnalysisPrompt_first_50000
          [of "replicate 50000 0x61 @ js ''first''" "replicate 50000 0x61 @ js ''second''"]
  by (simp add: js_eq_iff)

section \<open>The preconditions of an analysis\<close>

text \<open>
  C7: when no API key is configured (the constant is unset or empty), the analysis throws
  \<open>NO_API_KEY\<close>; when a key is configured and the trimmed text has fewer than 100 code
  units, it throws \<open>INVALID_INPUT\<close>. In both cases nothing has happened before: no call
  of the model and no sleep, whatever the transport and the retry budget are.
\<close>

theorem preconditions_fail_before_any_attempt:
  "(apiKey = None \<or> apiKey = Some [] \<longrightarrow>
      analyzeContractWithGemini apiKey E T contractText maxRetries =
        ([], Inl (GeminiError (js ''Gemini API key not configured'') (js ''NO_API_KEY''))))
   \<and> (apiKey \<noteq> None \<and> apiKey \<noteq> Some [] \<and> length (trim contractText) < 100 \<longrightarrow>
      analyzeContractWithGemini apiKey E T contractText maxRetries =
        ([], Inl (GeminiError (js ''Contract text too short for analysis'')
                    (js ''INVALID_INPUT''))))"
  by (auto simp: analyzeContractWithGemini_def)

theorem preconditions_fail_before_any_attempt_witness:
  "analyzeContractWithGemini None sampleEngine sampleTransport sampleContract 3 =
     ([], Inl (GeminiError (js ''Gemini API key not configured'') (js ''NO_API_KEY'')))
   \<and> length (trim (js ''Rent: $900'')) < 100
   \<and> analyzeContractWithGemini (Some (js ''key'')) sampleEngine sampleTransport
        (js ''Rent: $900'') 3 =
     ([], Inl (GeminiError (js ''Contract text too short for analysis'') (js ''INVALID_INPUT'')))"
proof -
  have short: "length (trim (js ''Rent: $900'')) < 100"
    using length_trim_le [of "js ''Rent: $900''"] by (simp add: length_js)
  have key: "Some (js ''key'') \<noteq> None \<and> Some (js ''key'') \<noteq> Some []"
    by (simp add: js_eq_Nil_iff)
  show ?thesis
    using short key
      preconditions_fail_before_any_attempt
        [of None sampleEngine sampleTransport sampleContract 3]
      preconditions_fail_before_any_attempt
        [of "Some (js ''key'')" sampleEngine sampleTransport "js ''Rent: $900''" 3]
    by simp
qed

section \<open>The score of the AI path\<close>

text \<open>
  C1, as the code has it: on the AI path the declared \<open>overallRiskScore\<close> goes into the
  result unchanged, once the validator has found it to be a number from 0 to 100. It is
  not compared with a score computed from the flagged clauses, and never replaced.
\<close>

theorem declared_score_copied:
  assumes "parseGeminiResponse E response = Inr res"
    and "JSON_parse E (cleanedResponse response) = Some data"
  shows "overallRiskScore res = getProp data (js ''overallRiskScore'')
         \<and> (\<exists>q. overallRiskScore res = Some (JNum (Finite q)) \<and> 0 \<le> q \<and> q \<le> 100)"
proof -
  have v: "validateAnalysisResult data"
    and s: "overallRiskScore res = getProp data (js ''overallRiskScore'')"
    using assms by (auto simp: parse_Inr_iff)
  let ?v = "getProp data (js ''overallRiskScore'')"
  from v have "typeof ?v = ''number''" "\<not> js_lt ?v (Finite 0)" "\<not> js_gt ?v (Finite 100)"
    by (simp_all add: validateAnalysisResult_iff schemaViolation_def)
  hence "\<exists>q. ?v = Some (JNum (Finite q)) \<and> 0 \<le> q \<and> q \<le> 100"
    by (cases ?v rule: typeof.cases; simp) (rename_tac n, case_tac n; simp)
  thus ?thesis using s by simp
qed

theorem declared_score_copied_witness:
  "parseGeminiResponse sampleEngine sampleText = Inr sampleResult
   \<and> JSON_parse sampleEngine (cleanedResponse sampleText) = Some sampleData
   \<and> overallRiskScore sampleResult = getProp sampleData (js ''overallRiskScore'')
   \<and> overallRiskScore sampleResult = Some (JNum (Finite 30))"
  using declared_score_copied [of sampleEngine sampleText sampleResult sampleData]
    parse_sampleText JSON_parse_samples(1)
  by (simp add: clean_sampleText sampleResult_def)

text \<open>
  C1 as stated fails: the sample response that declares the score 100 and flags no clause
  parses to a result with the score 100, while the scoring function gives 0 for its
  flagged clauses. No tolerance below 100 covers the difference.
\<close>

theorem declared_score_not_recomputed:
  "parseGeminiResponse sampleEngine declaredText = Inr declaredResult
   \<and> overallRiskScore declaredResult = Some (JNum (Finite 100))
   \<and> riskScore (flaggedClauses declaredResult) = 0"
  by (simp add: parse_declaredText) (simp add: declaredResult_def riskScore_def)

section \<open>Analysis method and confidence\<close>

text \<open>
  C5, as the code has it: every result of the AI path has the analysis method \<open>gemini\<close>
  and the confidence 95.
\<close>

theorem analysis_method_and_confidence:
  assumes "parseGeminiResponse E response = Inr res"
  shows "analysisMethod res = js ''gemini'' \<and> confidence res = 95"
  using assms by (auto simp: parse_Inr_iff)

theorem analysis_method_and_confidence_witness:
  "parseGeminiResponse sampleEngine sampleText = Inr sampleResult
   \<and> analysisMethod sampleResult = js ''gemini'' \<and> confidence sampleResult = 95"
  using analysis_method_and_confidence [of sampleEngine sampleText sampleResult]
    parse_sampleText
  by simp

text \<open>
  C5 as stated fails: the analysis method of the AI path is the string \<open>gemini\<close>, which
  is not \<open>ai\<close>.
\<close>

theorem analysis_method_is_not_ai:
  "parseGeminiResponse sampleEngine sampleText = Inr sampleResult
   \<and> analysisMethod sampleResult \<noteq> js ''ai''"
  by (simp add: parse_sampleText) (simp add: sampleResult_def js_eq_iff)

section \<open>The error codes of the parser\<close>

text \<open>
  C3, as the code has it: the parser throws \<open>PARSE_ERROR\<close> exactly when \<open>JSON.parse\<close>
  throws on the trimmed response without its code fence; it throws \<open>VALIDATION_ERROR\<close>
  exactly when the parsed value violates the schema or has the empty string as its
  summary; and a parsed value that does neither, and has no \<open>null\<close> among its flagged
  clauses, yields an \<open>AnalysisResult\<close>.
\<close>

theorem parser_error_codes:
  "((\<exists>m. parseGeminiResponse E response = Inl (GeminiError m (js ''PARSE_ERROR'')))
      \<longleftrightarrow> JSON_parse E (cleanedResponse response) = None)
   \<and> ((\<exists>m. parseGeminiResponse E response = Inl (GeminiError m (js ''VALIDATION_ERROR'')))
      \<longleftrightarrow> (\<exists>data. JSON_parse E (cleanedResponse response) = Some data
                  \<and> (schemaViolation data \<or> getProp data (js ''summary'') = Some (JStr []))))
   \<and> (\<forall>data. JSON_parse E (cleanedResponse response) = Some data
          \<and> \<not> schemaViolation data \<and> getProp data (js ''summary'') \<noteq> Some (JStr [])
          \<and> JNull \<notin> set (elements (getProp data (js ''flaggedClauses'')))
        \<longrightarrow> (\<exists>res. parseGeminiResponse E response = Inr res))"
proof (intro conjI allI impI)
  show "(\<exists>m. parseGeminiResponse E response = Inl (GeminiError m (js ''PARSE_ERROR'')))
      \<longleftrightarrow> JSON_parse E (cleanedResponse response) = None"
    by (rule parse_PARSE_ERROR_iff)
  show "(\<exists>m. parseGeminiResponse E response = Inl (GeminiError m (js ''VALIDATION_ERROR'')))
      \<longleftrightarrow> (\<exists>data. JSON_parse E (cleanedResponse response) = Some data
                  \<and> (schemaViolation data \<or> getProp data (js ''summary'') = Some (JStr [])))"
    by (auto simp: parse_VALIDATION_ERROR_iff validateAnalysisResult_iff)
next
  fix data
  assume a: "JSON_parse E (cleanedResponse response) = Some data
          \<and> \<not> schemaViolation data \<and> getProp data (js ''summary'') \<noteq> Some (JStr [])
          \<and> JNull \<notin> set (elements (getProp data (js ''flaggedClauses'')))"
  hence "validateAnalysisResult data" by (simp add: validateAnalysisResult_iff)
  thus "\<exists>res. parseGeminiResponse E response = Inr res"
    using a by (simp add: parse_Inr_iff convertClauses_ok)
qed

theorem parser_error_codes_witness:
  "JSON_parse sampleEngine (cleanedResponse sampleText) = Some sampleData
   \<and> \<not> schemaViolation sampleData
   \<and> getProp sampleData (js ''summary'') \<noteq> Some (JStr [])
   \<and> JNull \<notin> set (elements (getProp sampleData (js ''flaggedClauses'')))
   \<and> (\<exists>res. parseGeminiResponse sampleEngine sampleText = Inr res)"
proof -
  have j: "JSON_parse sampleEngine (cleanedResponse sampleText) = Some sampleData"
    by (simp add: clean_sampleText JSON_parse_samples)
  have v: "\<not> schemaViolation sampleData \<and> getProp sampleData (js ''summary'') \<noteq> Some (JStr [])"
    using validate_sampleData by (simp add: validateAnalysisResult_iff)
  have n: "JNull \<notin> set (elements (getProp sampleData (js ''flaggedClauses'')))"
    by (simp add: sampleData_def js_eq_iff)
  show ?thesis
    using parser_error_codes [of sampleEngine sampleText] j v n by blast
qed

text \<open>
  C3 as stated fails: the sample response with the empty summary has every required
  field, each of the right type, a score and a risk level in range, and the parser throws
  \<open>VALIDATION_ERROR\<close> on it.
\<close>

theorem empty_summary_rejected_without_violation:
  "\<not> schemaViolation emptySummaryData
   \<and> JSON_parse sampleEngine (cleanedResponse emptySummaryText) = Some emptySummaryData
   \<and> parseGeminiResponse sampleEngine emptySummaryText =
       Inl (GeminiError (js ''Invalid response structure from Gemini'') (js ''VALIDATION_ERROR''))"
  by (simp add: not_violation_emptySummaryData clean_emptySummaryText JSON_parse_samples
        parseGeminiResponse_def validateAnalysisResult_iff summary_emptySummaryData)

text \<open>
  C10: there is a response with every required field present and of the right type, and
  the empty string as its summary, that the validator rejects; and whenever the summary
  or the risk level of the parsed value is the empty string, the validator rejects the
  value and the parser throws \<open>VALIDATION_ERROR\<close>: the checks test truthiness, not
  presence.
\<close>

theorem empty_strings_fail_validation:
  "(\<exists>d. \<not> schemaViolation d \<and> getProp d (js ''summary'') = Some (JStr [])
        \<and> \<not> validateAnalysisResult d)
   \<and> (getProp data (js ''summary'') = Some (JStr [])
        \<or> getProp data (js ''riskLevel'') = Some (JStr [])
      \<longrightarrow> \<not> validateAnalysisResult data
          \<and> (JSON_parse E (cleanedResponse response) = Some data \<longrightarrow>
                parseGeminiResponse E response =
                  Inl (GeminiError (js ''Invalid response structure from Gemini'')
                         (js ''VALIDATION_ERROR''))))"
proof (intro conjI impI)
  have "\<not> validateAnalysisResult emptySummaryData"
    using summary_emptySummaryData by (simp add: validateAnalysisResult_iff)
  thus "\<exists>d. \<not> schemaViolation d \<and> getProp d (js ''summary'') = Some (JStr [])
        \<and> \<not> validateAnalysisResult d"
    using not_violation_emptySummaryData summary_emptySummaryData by blast
next
  assume "getProp data (js ''summary'') = Some (JStr [])
        \<or> getProp data (js ''riskLevel'') = Some (JStr [])"
  thus v: "\<not> validateAnalysisResult data"
    by (auto simp: validateAnalysisResult_def)
  assume "JSON_parse E (cleanedResponse response) = Some data"
  thus "parseGeminiResponse E response =
          Inl (GeminiError (js ''Invalid response structure from Gemini'')
                 (js ''VALIDATION_ERROR''))"
    using v by (simp add: parseGeminiResponse_def)
qed

theorem empty_strings_fail_validation_witness:
  "getProp emptySummaryData (js ''summary'') = Some (JStr [])
   \<and> \<not> schemaViolation emptySummaryData
   \<and> \<not> validateAnalysisResult emptySummaryData
   \<and> JSON_parse sampleEngine (cleanedResponse emptySummaryText) = Some emptySummaryData
   \<and> parseGeminiResponse sampleEngine emptySummaryText =
        Inl (GeminiError (js ''Invalid response structure from Gemini'')
               (js ''VALIDATION_ERROR''))"
  using empty_strings_fail_validation [of emptySummaryData sampleEngine emptySummaryText]
    summary_emptySummaryData not_violation_emptySummaryData
  by (simp add: clean_emptySummaryText JSON_parse_samples)

section \<open>Key details\<close>

text \<open>
  C8, as the code has it: for each of the eight fields of \<open>keyDetailFields\<close>, the result
  has exactly one entry with the label of the field when the field is truthy (not
  \<open>null\<close>, not absent, not the empty string), with the field's value and category, and no
  entry with that label otherwise; no two entries of a result share a label.
\<close>

theorem key_details_of_truthy_fields:
  assumes "parseGeminiResponse E response = Inr res"
    and "JSON_parse E (cleanedResponse response) = Some data"
  shows "(\<forall>(f, l, c) \<in> set keyDetailFields.
            filter (\<lambda>d. label d = l) (keyDetails res) =
              (if truthy (member (getProp data (js ''keyDetails'')) f)
               then [\<lparr>label = l, value_kd = member (getProp data (js ''keyDetails'')) f,
                      category = c\<rparr>]
               else []))
         \<and> distinct (map label (keyDetails res))"
proof -
  let ?m = "getProp data (js ''keyDetails'')"
  have kd: "keyDetails res = convertKeyDetails ?m"
    using assms by (auto simp: parse_Inr_iff)
  have "map label (convertKeyDetails ?m) =
          map (\<lambda>row. fst (snd row)) (filter (\<lambda>row. truthy (member ?m (fst row))) keyDetailFields)"
    by (simp add: convertKeyDetails_table comp_def)
  hence "distinct (map label (keyDetails res))"
    using keyDetailFields_labels_distinct by (simp add: kd distinct_map_filter)
  moreover have "\<forall>(f, l, c) \<in> set keyDetailFields.
            filter (\<lambda>d. label d = l) (keyDetails res) =
              (if truthy (member ?m f)
               then [\<lparr>label = l, value_kd = member ?m f, category = c\<rparr>] else [])"
    unfolding kd convertKeyDetails_table
    using filter_label_table [OF keyDetailFields_labels_distinct] by blast
  ultimately show ?thesis by simp
qed

theorem key_details_of_truthy_fields_witness:
  "parseGeminiResponse sampleEngine sampleText = Inr sampleResult
   \<and> JSON_parse sampleEngine (cleanedResponse sampleText) = Some sampleData
   \<and> (js ''monthlyRent'', js ''Monthly Rent'', js ''rent'') \<in> set keyDetailFields
   \<and> (js ''petDeposit'', js ''Pet Deposit'', js ''security_deposit'') \<in> set keyDetailFields
   \<and> member (getProp sampleData (js ''keyDetails'')) (js ''monthlyRent'') = Some (JStr (js ''$2,000''))
   \<and> member (getProp sampleData (js ''keyDetails'')) (js ''petDeposit'') = Some JNull
   \<and> filter (\<lambda>d. label d = js ''Monthly Rent'') (keyDetails sampleResult) =
       [\<lparr>label = js ''Monthly Rent'', value_kd = Some (JStr (js ''$2,000'')), category = js ''rent''\<rparr>]
   \<and> filter (\<lambda>d. label d = js ''Pet Deposit'') (keyDetails sampleResult) = []
   \<and> distinct (map label (keyDetails sampleResult))"
proof -
  have p: "parseGeminiResponse sampleEngine sampleText = Inr sampleResult"
    by (rule parse_sampleText)
  have j: "JSON_parse sampleEngine (cleanedResponse sampleText) = Some sampleData"
    by (simp add: clean_sampleText JSON_parse_samples)
  have r: "(js ''monthlyRent'', js ''Monthly Rent'', js ''rent'') \<in> set keyDetailFields"
    and d: "(js ''petDeposit'', js ''Pet Deposit'', js ''security_deposit'') \<in> set keyDetailFields"
    by (simp_all add: keyDetailFields_def)
  have mr: "member (getProp sampleData (js ''keyDetails'')) (js ''monthlyRent'')
              = Some (JStr (js ''$2,000''))"
    and pd: "member (getProp sampleData (js ''keyDetails'')) (js ''petDeposit'') = Some JNull"
    by (simp_all add: sampleData_def js_eq_iff)
  show ?thesis
    using key_details_of_truthy_fields [OF p j] p j r d mr pd
    by (auto simp: js_eq_Nil_iff)
qed

text \<open>
  C8 as stated fails: in the sample response whose monthly rent is the empty string the
  field is not \<open>null\<close>, and the result has no entry for it.
\<close>

theorem empty_string_detail_dropped:
  "member (getProp declaredData (js ''keyDetails'')) (js ''monthlyRent'') = Some (JStr [])
   \<and> Some (JStr []) \<noteq> Some JNull
   \<and> parseGeminiResponse sampleEngine declaredText = Inr declaredResult
   \<and> keyDetails declaredResult = []"
  by (simp add: parse_declaredText) (simp add: declaredData_def declaredResult_def js_eq_iff)

section \<open>Code fences\<close>

text \<open>
  C4, as the code has it: a payload between a leading marker (three backticks, with or
  without \<open>json\<close>), white space that is not empty, and white space and a closing marker
  parses exactly as the bare payload does (the same result or the same error), provided
  the trimmed payload does not itself begin with three backticks.
\<close>

theorem fenced_payload_parses_alike:
  assumes "marker = js ''```json'' \<or> marker = js ''```''"
    and "pre \<noteq> []" and "\<forall>c \<in> set pre. isWhiteSpace c" and "\<forall>c \<in> set post. isWhiteSpace c"
    and "\<not> startsWith (trim payload) (js ''```'')"
  shows "parseGeminiResponse E (marker @ pre @ payload @ post @ js ''```'') =
           parseGeminiResponse E payload"
proof -
  have "cleanedResponse (marker @ pre @ payload @ post @ js ''```'') = trim payload"
    using assms(1-4) by (rule cleanedResponse_fenced)
  moreover have "cleanedResponse payload = trim payload"
    using assms(5) by (rule cleanedResponse_plain)
  ultimately show ?thesis by (simp add: parseGeminiResponse_def)
qed

theorem fenced_payload_parses_alike_witness:
  "parseGeminiResponse sampleEngine (js ''```json'' @ [0x0A] @ sampleText @ [0x0A] @ js ''```'')
     = Inr sampleResult
   \<and> parseGeminiResponse sampleEngine (js ''```'' @ [0x0A] @ sampleText @ [0x0A] @ js ''```'')
     = Inr sampleResult
   \<and> parseGeminiResponse sampleEngine sampleText = Inr sampleResult"
  using fenced_payload_parses_alike
          [of "js ''```json''" "[0x0A]" "[0x0A]" sampleText sampleEngine,
           OF _ _ line_feed_white line_feed_white not_fence_sampleText]
        fenced_payload_parses_alike
          [of "js ''```''" "[0x0A]" "[0x0A]" sampleText sampleEngine,
           OF _ _ line_feed_white line_feed_white not_fence_sampleText]
        parse_sampleText
  by simp

text \<open>
  C4 as stated fails: the parser removes one code fence. The sample response inside a
  fence is a payload that parses to the sample result; wrapped in a second fence it is
  handed to \<open>JSON.parse\<close> with its own fence, and the parser throws \<open>PARSE_ERROR\<close>.
\<close>

theorem fenced_fence_parses_differently:
  "parseGeminiResponse sampleEngine fencedSampleText = Inr sampleResult
   \<and> parseGeminiResponse sampleEngine
        (js ''```json'' @ [0x0A] @ fencedSampleText @ [0x0A] @ js ''```'')
     = Inl (GeminiError (js ''Failed to parse Gemini response as JSON'') (js ''PARSE_ERROR''))"
proof -
  have a: "cleanedResponse fencedSampleText = sampleText"
    unfolding fencedSampleText_def
    using cleanedResponse_fenced [of "js ''```json''" "[0x0A]" "[0x0A]" sampleText]
    by (simp add: isWhiteSpace_def trim_sampleText)
  have "hd fencedSampleText = 0x60" "last fencedSampleText = 0x60" "fencedSampleText \<noteq> []"
    by (simp_all add: fencedSampleText_def js_fence_json js_fence)
  hence t: "trim fencedSampleText = fencedSampleText"
    by (intro trim_fixed) (simp_all add: backtick_not_white)
  have b: "cleanedResponse (js ''```json'' @ [0x0A] @ fencedSampleText @ [0x0A] @ js ''```'')
             = fencedSampleText"
    using cleanedResponse_fenced [of "js ''```json''" "[0x0A]" "[0x0A]" fencedSampleText]
    by (simp add: isWhiteSpace_def t)
  have p1: "parseGeminiResponse sampleEngine fencedSampleText = Inr sampleResult"
    using parse_sampleText by (simp add: parseGeminiResponse_def a clean_sampleText)
  have p2: "parseGeminiResponse sampleEngine
        (js ''```json'' @ [0x0A] @ fencedSampleText @ [0x0A] @ js ''```'')
     = Inl (GeminiError (js ''Failed to parse Gemini response as JSON'') (js ''PARSE_ERROR''))"
    unfolding parseGeminiResponse_def b JSON_parse_fencedSampleText by simp
  show ?thesis by (intro conjI p1 p2)
qed

section \<open>Retries\<close>

text \<open>
  C2, as the code has it: a failure that raises a \<open>GeminiError\<close> inside an attempt (an
  empty response, a parse failure, a validation failure) is retried as long as an attempt
  is left in the budget, after a sleep of \<open>2 ^ attempt\<close> seconds (attempts counted from 0:
  1 s, 2 s, 4 s, \<dots>), one attempt after the other. So when the attempts before \<open>k\<close> fail in
  this way, and attempt \<open>k\<close> is within the budget and either does not fail in this way or is
  the last of the budget, the analysis consists of the \<open>k\<close> failed attempts with their
  sleeps and of attempt \<open>k\<close>, whose result or \<open>GeminiError\<close> goes to the caller. A failure
  of the call itself is not retried: it goes to the caller at once as \<open>UNKNOWN_ERROR\<close>.
\<close>

theorem transient_failures_are_retried:
  assumes "apiKey \<noteq> None" and "apiKey \<noteq> Some []" and "100 \<le> length (trim contractText)"
    and "\<forall>i<k. transientFailure E (T (buildAnalysisPrompt contractText) i)"
    and "int k < maxRetries"
    and "\<not> transientFailure E (T (buildAnalysisPrompt contractText) k) \<or> int k = maxRetries - 1"
  shows "analyzeContractWithGemini apiKey E T contractText maxRetries =
           (backoffEvents E T (buildAnalysisPrompt contractText) k
              @ [GenerateContent (buildAnalysisPrompt contractText)],
            lastAttemptResult (tryAttempt E (T (buildAnalysisPrompt contractText) k)))"
proof -
  have "contractText \<noteq> []" using assms(3) by (auto simp: trim_def trimStart_def trimEnd_def)
  hence "analyzeContractWithGemini apiKey E T contractText maxRetries =
           retryLoop E T (buildAnalysisPrompt contractText) maxRetries 0 []"
    using assms(1-3) by (auto simp: analyzeContractWithGemini_def)
  also have "\<dots> = retryLoop E T (buildAnalysisPrompt contractText) maxRetries k
                     (backoffEvents E T (buildAnalysisPrompt contractText) k)"
    using assms(4,5) by (rule retryLoop_backoff)
  also have "\<dots> = (backoffEvents E T (buildAnalysisPrompt contractText) k
              @ [GenerateContent (buildAnalysisPrompt contractText)],
            lastAttemptResult (tryAttempt E (T (buildAnalysisPrompt contractText) k)))"
    using assms(5,6) by (rule retryLoop_last)
  finally show ?thesis .
qed

theorem transient_failures_are_retried_witness:
  "analyzeContractWithGemini (Some (js ''key'')) sampleEngine sampleTransport sampleContract
     maxRetriesDefault =
     ([GenerateContent (buildAnalysisPrompt sampleContract),
       ConsoleWarn (js ''Gemini attempt '' @ decimal 1 @ js '' failed:'')
         (js ''Empty response from Gemini''),
       Sleep 1000,
       GenerateContent (buildAnalysisPrompt sampleContract),
       ConsoleWarn (js ''Gemini attempt '' @ decimal 2 @ js '' failed:'')
         (js ''Failed to parse Gemini response as JSON''),
       Sleep 2000,
       GenerateContent (buildAnalysisPrompt sampleContract)],
      Inr sampleResult)"
proof -
  let ?p = "buildAnalysisPrompt sampleContract"
  have t0: "tryAttempt sampleEngine (sampleTransport ?p 0) =
              Inl (GeminiError (js ''Empty response from Gemini'') (js ''EMPTY_RESPONSE''))"
    by (simp add: sampleTransport_def tryAttempt_def)
  have t1: "tryAttempt sampleEngine (sampleTransport ?p 1) =
              Inl (GeminiError (js ''Failed to parse Gemini response as JSON'')
                     (js ''PARSE_ERROR''))"
    by (simp add: sampleTransport_def tryAttempt_sorry)
  have t2: "tryAttempt sampleEngine (sampleTransport ?p 2) = Inr sampleResult"
    by (simp add: sampleTransport_def tryAttempt_def sampleText_not_empty parse_sampleText)
  have f: "\<forall>i<2. transientFailure sampleEngine (sampleTransport ?p i)"
  proof (intro allI impI)
    fix i :: nat
    assume "i < 2"
    hence "i = 0 \<or> i = 1" by auto
    thus "transientFailure sampleEngine (sampleTransport ?p i)"
      using t0 t1 by (auto simp: transientFailure_iff)
  qed
  have l: "\<not> transientFailure sampleEngine (sampleTransport ?p 2) \<or> int 2 = maxRetriesDefault - 1"
    by (simp add: maxRetriesDefault_def)
  have b: "backoffEvents sampleEngine sampleTransport ?p 2 =
      [GenerateContent ?p,
       ConsoleWarn (js ''Gemini attempt '' @ decimal 1 @ js '' failed:'')
         (js ''Empty response from Gemini''),
       Sleep 1000,
       GenerateContent ?p,
       ConsoleWarn (js ''Gemini attempt '' @ decimal 2 @ js '' failed:'')
         (js ''Failed to parse Gemini response as JSON''),
       Sleep 2000]"
    using t0 t1 by (simp add: numeral_2_eq_2 failureMessage_def)
  show ?thesis
    using transient_failures_are_retried
            [of "Some (js ''key'')" sampleContract 2 sampleEngine sampleTransport
                maxRetriesDefault, OF _ _ length_sampleContract f _ l]
    by (simp add: js_eq_Nil_iff maxRetriesDefault_def b t2 lastAttemptResult_def)
qed

text \<open>
  C2 as stated fails: with the default budget of three attempts and a network that is
  down, the analysis makes one call, does not sleep, and throws \<open>UNKNOWN_ERROR\<close>.
\<close>

theorem network_failure_not_retried:
  "analyzeContractWithGemini (Some (js ''key'')) sampleEngine downTransport sampleContract
     maxRetriesDefault =
     ([GenerateContent (buildAnalysisPrompt sampleContract)],
      Inl (GeminiError (js ''Failed to fetch'') (js ''UNKNOWN_ERROR'')))"
proof -
  have "sampleContract \<noteq> []" by (simp add: sampleContract_def js_eq_Nil_iff)
  thus ?thesis
    using length_sampleContract
    by (simp add: analyzeContractWithGemini_def js_eq_Nil_iff)
       (subst retryLoop.simps,
        simp add: maxRetriesDefault_def downTransport_def tryAttempt_def)
qed

end
